theory Spec2Isabelle
  imports Complex_Main
begin

section \<open>JavaScript values used by the store\<close>

text \<open>
  A \<open>Date\<close> is its time value: the number of milliseconds since the epoch, an integer.
  Counters and time values are unbounded integers: a JavaScript number is exact on the
  integers up to \<open>2^53\<close>, and the clock and the counters of the application stay far
  below (the range limit of a \<open>Date\<close>, 8.64e15 milliseconds, is not modelled).
  \<open>jsonb\<close> columns (typed \<open>unknown\<close>) carry a JSON value.
\<close>

type_synonym Date = int

datatype json =
    JNull
  | JBool bool
  | JNum int
  | JStr string
  | JArr "json list"
  | JObj "(string \<times> json) list"

text \<open>Truthiness of the operand of \<open>||\<close>, by the operand's type.\<close>

definition truthy_string :: "string \<Rightarrow> bool" where
  "truthy_string s \<longleftrightarrow> s \<noteq> []"

definition truthy_number :: "int \<Rightarrow> bool" where
  "truthy_number n \<longleftrightarrow> n \<noteq> 0"

fun truthy_json :: "json \<Rightarrow> bool" where
  "truthy_json JNull = False"
| "truthy_json (JBool b) = b"
| "truthy_json (JNum n) = truthy_number n"
| "truthy_json (JStr s) = truthy_string s"
| "truthy_json (JArr _) = True"
| "truthy_json (JObj _) = True"

text \<open>
  \<open>x || d\<close> for an optional, nullable \<open>x\<close>: \<open>None\<close> stands for both \<open>undefined\<close>
  and \<open>null\<close>, which are falsy; a present value is kept only when it is truthy.
  Objects (a \<open>Date\<close>, an array) are always truthy.
\<close>

definition or_else :: "('a \<Rightarrow> bool) \<Rightarrow> 'a option \<Rightarrow> 'b \<Rightarrow> ('a \<Rightarrow> 'b) \<Rightarrow> 'b" where
  "or_else truthy x d keep =
     (case x of None \<Rightarrow> d | Some v \<Rightarrow> if truthy v then keep v else d)"

definition string_or_null :: "string option \<Rightarrow> string option" where
  "string_or_null x = or_else truthy_string x None Some"

definition number_or_null :: "int option \<Rightarrow> int option" where
  "number_or_null x = or_else truthy_number x None Some"

definition number_or :: "int option \<Rightarrow> int \<Rightarrow> int" where
  "number_or x d = or_else truthy_number x d (\<lambda>v. v)"

definition object_or_null :: "'a option \<Rightarrow> 'a option" where
  "object_or_null x = or_else (\<lambda>_. True) x None Some"

definition json_or_null :: "json option \<Rightarrow> json" where
  "json_or_null x = or_else truthy_json x JNull (\<lambda>v. v)"

text \<open>
  One property of an object spread \<open>{ ...old, ...updates }\<close>: a property the partial
  object does not have keeps the old value, one it has takes the new value.
\<close>

definition spread :: "'a \<Rightarrow> 'a option \<Rightarrow> 'a" where
  "spread old upd = (case upd of None \<Rightarrow> old | Some v \<Rightarrow> v)"

section \<open>The JavaScript \<open>Map\<close>\<close>

text \<open>
  A \<open>Map\<close> keeps its entries in insertion order with one entry for each key, so it is
  a list of key-value pairs. \<open>set\<close> on a key that is present replaces the value in
  place, on a new key it appends; \<open>delete\<close> reports whether the key was present.
\<close>

type_synonym ('k, 'v) JsMap = "('k \<times> 'v) list"

definition Map_get :: "('k, 'v) JsMap \<Rightarrow> 'k \<Rightarrow> 'v option" where
  "Map_get m k = map_of m k"

fun Map_set :: "('k, 'v) JsMap \<Rightarrow> 'k \<Rightarrow> 'v \<Rightarrow> ('k, 'v) JsMap" where
  "Map_set [] k v = [(k, v)]"
| "Map_set (p # m) k v = (if fst p = k then (k, v) # m else p # Map_set m k v)"

definition Map_delete :: "('k, 'v) JsMap \<Rightarrow> 'k \<Rightarrow> ('k, 'v) JsMap \<times> bool" where
  "Map_delete m k = (filter (\<lambda>p. fst p \<noteq> k) m, k \<in> set (map fst m))"

definition Map_values :: "('k, 'v) JsMap \<Rightarrow> 'v list" where
  "Map_values m = map snd m"

section \<open>The schema\<close>

text \<open>
  The select types of the tables, the insert types (the select type without the columns
  the insert schema omits; a nullable or defaulted column is optional there), and
  \<open>Partial\<close> of the three types that have an update. Field names carry a prefix for the
  type, since a field name is a constant of the theory. In a \<open>Partial\<close> type a field is
  \<open>None\<close> when the property is absent; a property that is present has a value of the
  field's type (the object is the JSON body of a request, which has no \<open>undefined\<close>).
  In an insert type \<open>None\<close> is an optional property that is absent or \<open>null\<close>.
\<close>

record User =
  u_id :: string
  u_username :: string
  u_email :: string
  u_password :: string
  u_spotifyAccessToken :: "string option"
  u_spotifyRefreshToken :: "string option"
  u_createdAt :: "Date option"

record InsertUser =
  iu_username :: string
  iu_email :: string
  iu_password :: string
  iu_spotifyAccessToken :: "string option"
  iu_spotifyRefreshToken :: "string option"

record Partial_User =
  pu_id :: "string option"
  pu_username :: "string option"
  pu_email :: "string option"
  pu_password :: "string option"
  pu_spotifyAccessToken :: "string option option"
  pu_spotifyRefreshToken :: "string option option"
  pu_createdAt :: "Date option option"

record Document =
  d_id :: string
  d_userId :: string
  d_title :: string
  d_type :: string
  d_originalUrl :: "string option"
  d_content :: string
  d_metadata :: json
  d_createdAt :: "Date option"

record InsertDocument =
  id_userId :: string
  id_title :: string
  id_type :: string
  id_originalUrl :: "string option"
  id_content :: string
  id_metadata :: "json option"

record Note =
  n_id :: string
  n_userId :: string
  n_documentId :: "string option"
  n_title :: string
  n_content :: string
  n_subject :: "string option"
  n_tags :: "string list option"
  n_wordCount :: "int option"
  n_createdAt :: "Date option"
  n_updatedAt :: "Date option"

record InsertNote =
  in_userId :: string
  in_documentId :: "string option"
  in_title :: string
  in_content :: string
  in_subject :: "string option"
  in_tags :: "string list option"
  in_wordCount :: "int option"

record Partial_Note =
  pn_id :: "string option"
  pn_userId :: "string option"
  pn_documentId :: "string option option"
  pn_title :: "string option"
  pn_content :: "string option"
  pn_subject :: "string option option"
  pn_tags :: "string list option option"
  pn_wordCount :: "int option option"
  pn_createdAt :: "Date option option"
  pn_updatedAt :: "Date option option"

record FlashcardSet =
  fs_id :: string
  fs_userId :: string
  fs_documentId :: "string option"
  fs_title :: string
  fs_description :: "string option"
  fs_cardCount :: "int option"
  fs_createdAt :: "Date option"

record InsertFlashcardSet =
  ifs_userId :: string
  ifs_documentId :: "string option"
  ifs_title :: string
  ifs_description :: "string option"
  ifs_cardCount :: "int option"

record Flashcard =
  fc_id :: string
  fc_setId :: string
  fc_question :: string
  fc_answer :: string
  fc_difficulty :: "string option"
  fc_lastReviewed :: "Date option"
  fc_nextReview :: "Date option"
  fc_repetitions :: "int option"
  fc_easinessFactor :: "int option"

record InsertFlashcard =
  ifc_setId :: string
  ifc_question :: string
  ifc_answer :: string
  ifc_difficulty :: "string option"
  ifc_lastReviewed :: "Date option"
  ifc_nextReview :: "Date option"
  ifc_repetitions :: "int option"
  ifc_easinessFactor :: "int option"

record Partial_Flashcard =
  pfc_id :: "string option"
  pfc_setId :: "string option"
  pfc_question :: "string option"
  pfc_answer :: "string option"
  pfc_difficulty :: "string option option"
  pfc_lastReviewed :: "Date option option"
  pfc_nextReview :: "Date option option"
  pfc_repetitions :: "int option option"
  pfc_easinessFactor :: "int option option"

record Quiz =
  q_id :: string
  q_userId :: string
  q_documentId :: "string option"
  q_title :: string
  q_description :: "string option"
  q_questions :: json
  q_timeLimit :: "int option"
  q_createdAt :: "Date option"

record InsertQuiz =
  iq_userId :: string
  iq_documentId :: "string option"
  iq_title :: string
  iq_description :: "string option"
  iq_questions :: json
  iq_timeLimit :: "int option"

record QuizAttempt =
  qa_id :: string
  qa_userId :: string
  qa_quizId :: string
  qa_answers :: json
  qa_score :: int
  qa_totalQuestions :: int
  qa_timeSpent :: "int option"
  qa_completedAt :: "Date option"

record InsertQuizAttempt =
  iqa_userId :: string
  iqa_quizId :: string
  iqa_answers :: json
  iqa_score :: int
  iqa_totalQuestions :: int
  iqa_timeSpent :: "int option"

record ChatMessage =
  cm_id :: string
  cm_userId :: string
  cm_documentId :: "string option"
  cm_message :: string
  cm_response :: string
  cm_createdAt :: "Date option"

record InsertChatMessage =
  icm_userId :: string
  icm_documentId :: "string option"
  icm_message :: string
  icm_response :: string

section \<open>The in-memory store\<close>

text \<open>
  \<open>MemStorage\<close> holds one \<open>Map\<close> for each entity type. A method that changes a map
  returns the new store with its result. The two effects a method reads from its
  environment are parameters: \<open>uuid\<close> is what \<open>randomUUID()\<close> returned and \<open>now\<close>
  what \<open>new Date()\<close> returned. A result \<open>None\<close> is \<open>undefined\<close>. The field
  \<open>notes\<close> is \<open>notes_map\<close> here, \<open>notes\<close> being a keyword.
\<close>

record MemStorage =
  users :: "(string, User) JsMap"
  documents :: "(string, Document) JsMap"
  notes_map :: "(string, Note) JsMap"
  flashcardSets :: "(string, FlashcardSet) JsMap"
  flashcards :: "(string, Flashcard) JsMap"
  quizzes :: "(string, Quiz) JsMap"
  quizAttempts :: "(string, QuizAttempt) JsMap"
  chatMessages :: "(string, ChatMessage) JsMap"

definition new_MemStorage :: MemStorage where
  "new_MemStorage =
     \<lparr> users = [], documents = [], notes_map = [], flashcardSets = [], flashcards = [],
       quizzes = [], quizAttempts = [], chatMessages = [] \<rparr>"

subsection \<open>User methods\<close>

definition getUser :: "MemStorage \<Rightarrow> string \<Rightarrow> User option" where
  "getUser s ident = Map_get (users s) ident"

definition getUserByEmail :: "MemStorage \<Rightarrow> string \<Rightarrow> User option" where
  "getUserByEmail s email = find (\<lambda>user. u_email user = email) (Map_values (users s))"

definition createUser :: "MemStorage \<Rightarrow> string \<Rightarrow> Date \<Rightarrow> InsertUser \<Rightarrow> MemStorage \<times> User" where
  "createUser s uuid now insertUser =
     (let user = \<lparr> u_id = uuid,
                   u_username = iu_username insertUser,
                   u_email = iu_email insertUser,
                   u_password = iu_password insertUser,
                   u_spotifyAccessToken = None,
                   u_spotifyRefreshToken = None,
                   u_createdAt = Some now \<rparr>
      in (s\<lparr>users := Map_set (users s) uuid user\<rparr>, user))"

definition spread_User :: "User \<Rightarrow> Partial_User \<Rightarrow> User" where
  "spread_User user updates =
     \<lparr> u_id = spread (u_id user) (pu_id updates),
       u_username = spread (u_username user) (pu_username updates),
       u_email = spread (u_email user) (pu_email updates),
       u_password = spread (u_password user) (pu_password updates),
       u_spotifyAccessToken = spread (u_spotifyAccessToken user) (pu_spotifyAccessToken updates),
       u_spotifyRefreshToken = spread (u_spotifyRefreshToken user) (pu_spotifyRefreshToken updates),
       u_createdAt = spread (u_createdAt user) (pu_createdAt updates) \<rparr>"

definition updateUser :: "MemStorage \<Rightarrow> string \<Rightarrow> Partial_User \<Rightarrow> MemStorage \<times> User option" where
  "updateUser s ident updates =
     (case Map_get (users s) ident of
        None \<Rightarrow> (s, None)
      | Some user \<Rightarrow>
          (let updatedUser = spread_User user updates
           in (s\<lparr>users := Map_set (users s) ident updatedUser\<rparr>, Some updatedUser)))"

subsection \<open>Document methods\<close>

definition getDocument :: "MemStorage \<Rightarrow> string \<Rightarrow> Document option" where
  "getDocument s ident = Map_get (documents s) ident"

definition getDocumentsByUser :: "MemStorage \<Rightarrow> string \<Rightarrow> Document list" where
  "getDocumentsByUser s userId = filter (\<lambda>doc. d_userId doc = userId) (Map_values (documents s))"

definition createDocument ::
  "MemStorage \<Rightarrow> string \<Rightarrow> Date \<Rightarrow> InsertDocument \<Rightarrow> MemStorage \<times> Document" where
  "createDocument s uuid now insertDocument =
     (let document = \<lparr> d_id = uuid,
                       d_userId = id_userId insertDocument,
                       d_title = id_title insertDocument,
                       d_type = id_type insertDocument,
                       d_originalUrl = string_or_null (id_originalUrl insertDocument),
                       d_content = id_content insertDocument,
                       d_metadata = json_or_null (id_metadata insertDocument),
                       d_createdAt = Some now \<rparr>
      in (s\<lparr>documents := Map_set (documents s) uuid document\<rparr>, document))"

definition deleteDocument :: "MemStorage \<Rightarrow> string \<Rightarrow> MemStorage \<times> bool" where
  "deleteDocument s ident =
     (let (m, removed) = Map_delete (documents s) ident
      in (s\<lparr>documents := m\<rparr>, removed))"

subsection \<open>Note methods\<close>

definition getNote :: "MemStorage \<Rightarrow> string \<Rightarrow> Note option" where
  "getNote s ident = Map_get (notes_map s) ident"

definition getNotesByUser :: "MemStorage \<Rightarrow> string \<Rightarrow> Note list" where
  "getNotesByUser s userId = filter (\<lambda>note. n_userId note = userId) (Map_values (notes_map s))"

definition getNotesByDocument :: "MemStorage \<Rightarrow> string \<Rightarrow> Note list" where
  "getNotesByDocument s documentId =
     filter (\<lambda>note. n_documentId note = Some documentId) (Map_values (notes_map s))"

definition createNote :: "MemStorage \<Rightarrow> string \<Rightarrow> Date \<Rightarrow> InsertNote \<Rightarrow> MemStorage \<times> Note" where
  "createNote s uuid now insertNote =
     (let note = \<lparr> n_id = uuid,
                   n_userId = in_userId insertNote,
                   n_documentId = string_or_null (in_documentId insertNote),
                   n_title = in_title insertNote,
                   n_content = in_content insertNote,
                   n_subject = string_or_null (in_subject insertNote),
                   n_tags = object_or_null (in_tags insertNote),
                   n_wordCount = Some (number_or (in_wordCount insertNote) 0),
                   n_createdAt = Some now,
                   n_updatedAt = Some now \<rparr>
      in (s\<lparr>notes_map := Map_set (notes_map s) uuid note\<rparr>, note))"

definition spread_Note :: "Note \<Rightarrow> Partial_Note \<Rightarrow> Note" where
  "spread_Note note updates =
     \<lparr> n_id = spread (n_id note) (pn_id updates),
       n_userId = spread (n_userId note) (pn_userId updates),
       n_documentId = spread (n_documentId note) (pn_documentId updates),
       n_title = spread (n_title note) (pn_title updates),
       n_content = spread (n_content note) (pn_content updates),
       n_subject = spread (n_subject note) (pn_subject updates),
       n_tags = spread (n_tags note) (pn_tags updates),
       n_wordCount = spread (n_wordCount note) (pn_wordCount updates),
       n_createdAt = spread (n_createdAt note) (pn_createdAt updates),
       n_updatedAt = spread (n_updatedAt note) (pn_updatedAt updates) \<rparr>"

definition updateNote ::
  "MemStorage \<Rightarrow> string \<Rightarrow> Date \<Rightarrow> Partial_Note \<Rightarrow> MemStorage \<times> Note option" where
  "updateNote s ident now updates =
     (case Map_get (notes_map s) ident of
        None \<Rightarrow> (s, None)
      | Some note \<Rightarrow>
          (let updatedNote = (spread_Note note updates)\<lparr>n_updatedAt := Some now\<rparr>
           in (s\<lparr>notes_map := Map_set (notes_map s) ident updatedNote\<rparr>, Some updatedNote)))"

definition deleteNote :: "MemStorage \<Rightarrow> string \<Rightarrow> MemStorage \<times> bool" where
  "deleteNote s ident =
     (let (m, removed) = Map_delete (notes_map s) ident
      in (s\<lparr>notes_map := m\<rparr>, removed))"

subsection \<open>Flashcard methods\<close>

definition getFlashcardSet :: "MemStorage \<Rightarrow> string \<Rightarrow> FlashcardSet option" where
  "getFlashcardSet s ident = Map_get (flashcardSets s) ident"

definition getFlashcardSetsByUser :: "MemStorage \<Rightarrow> string \<Rightarrow> FlashcardSet list" where
  "getFlashcardSetsByUser s userId =
     filter (\<lambda>set. fs_userId set = userId) (Map_values (flashcardSets s))"

definition createFlashcardSet ::
  "MemStorage \<Rightarrow> string \<Rightarrow> Date \<Rightarrow> InsertFlashcardSet \<Rightarrow> MemStorage \<times> FlashcardSet" where
  "createFlashcardSet s uuid now insertSet =
     (let set = \<lparr> fs_id = uuid,
                  fs_userId = ifs_userId insertSet,
                  fs_documentId = string_or_null (ifs_documentId insertSet),
                  fs_title = ifs_title insertSet,
                  fs_description = string_or_null (ifs_description insertSet),
                  fs_cardCount = Some (number_or (ifs_cardCount insertSet) 0),
                  fs_createdAt = Some now \<rparr>
      in (s\<lparr>flashcardSets := Map_set (flashcardSets s) uuid set\<rparr>, set))"

definition getFlashcardsBySet :: "MemStorage \<Rightarrow> string \<Rightarrow> Flashcard list" where
  "getFlashcardsBySet s setId = filter (\<lambda>card. fc_setId card = setId) (Map_values (flashcards s))"

definition createFlashcard :: "MemStorage \<Rightarrow> string \<Rightarrow> InsertFlashcard \<Rightarrow> MemStorage \<times> Flashcard" where
  "createFlashcard s uuid insertCard =
     (let card = \<lparr> fc_id = uuid,
                   fc_setId = ifc_setId insertCard,
                   fc_question = ifc_question insertCard,
                   fc_answer = ifc_answer insertCard,
                   fc_difficulty = Some (or_else truthy_string (ifc_difficulty insertCard) ''medium'' (\<lambda>v. v)),
                   fc_lastReviewed = object_or_null (ifc_lastReviewed insertCard),
                   fc_nextReview = object_or_null (ifc_nextReview insertCard),
                   fc_repetitions = Some (number_or (ifc_repetitions insertCard) 0),
                   fc_easinessFactor = Some (number_or (ifc_easinessFactor insertCard) 250) \<rparr>
      in (s\<lparr>flashcards := Map_set (flashcards s) uuid card\<rparr>, card))"

definition spread_Flashcard :: "Flashcard \<Rightarrow> Partial_Flashcard \<Rightarrow> Flashcard" where
  "spread_Flashcard card' updates =
     \<lparr> fc_id = spread (fc_id card') (pfc_id updates),
       fc_setId = spread (fc_setId card') (pfc_setId updates),
       fc_question = spread (fc_question card') (pfc_question updates),
       fc_answer = spread (fc_answer card') (pfc_answer updates),
       fc_difficulty = spread (fc_difficulty card') (pfc_difficulty updates),
       fc_lastReviewed = spread (fc_lastReviewed card') (pfc_lastReviewed updates),
       fc_nextReview = spread (fc_nextReview card') (pfc_nextReview updates),
       fc_repetitions = spread (fc_repetitions card') (pfc_repetitions updates),
       fc_easinessFactor = spread (fc_easinessFactor card') (pfc_easinessFactor updates) \<rparr>"

definition updateFlashcard ::
  "MemStorage \<Rightarrow> string \<Rightarrow> Partial_Flashcard \<Rightarrow> MemStorage \<times> Flashcard option" where
  "updateFlashcard s ident updates =
     (case Map_get (flashcards s) ident of
        None \<Rightarrow> (s, None)
      | Some card' \<Rightarrow>
          (let updatedCard = spread_Flashcard card' updates
           in (s\<lparr>flashcards := Map_set (flashcards s) ident updatedCard\<rparr>, Some updatedCard)))"

subsection \<open>Quiz methods\<close>

definition getQuiz :: "MemStorage \<Rightarrow> string \<Rightarrow> Quiz option" where
  "getQuiz s ident = Map_get (quizzes s) ident"

definition getQuizzesByUser :: "MemStorage \<Rightarrow> string \<Rightarrow> Quiz list" where
  "getQuizzesByUser s userId = filter (\<lambda>quiz. q_userId quiz = userId) (Map_values (quizzes s))"

definition createQuiz :: "MemStorage \<Rightarrow> string \<Rightarrow> Date \<Rightarrow> InsertQuiz \<Rightarrow> MemStorage \<times> Quiz" where
  "createQuiz s uuid now insertQuiz =
     (let quiz = \<lparr> q_id = uuid,
                   q_userId = iq_userId insertQuiz,
                   q_documentId = string_or_null (iq_documentId insertQuiz),
                   q_title = iq_title insertQuiz,
                   q_description = string_or_null (iq_description insertQuiz),
                   q_questions = iq_questions insertQuiz,
                   q_timeLimit = number_or_null (iq_timeLimit insertQuiz),
                   q_createdAt = Some now \<rparr>
      in (s\<lparr>quizzes := Map_set (quizzes s) uuid quiz\<rparr>, quiz))"

definition getQuizAttemptsByUser :: "MemStorage \<Rightarrow> string \<Rightarrow> QuizAttempt list" where
  "getQuizAttemptsByUser s userId =
     filter (\<lambda>attempt. qa_userId attempt = userId) (Map_values (quizAttempts s))"

definition createQuizAttempt ::
  "MemStorage \<Rightarrow> string \<Rightarrow> Date \<Rightarrow> InsertQuizAttempt \<Rightarrow> MemStorage \<times> QuizAttempt" where
  "createQuizAttempt s uuid now insertAttempt =
     (let attempt = \<lparr> qa_id = uuid,
                      qa_userId = iqa_userId insertAttempt,
                      qa_quizId = iqa_quizId insertAttempt,
                      qa_answers = iqa_answers insertAttempt,
                      qa_score = iqa_score insertAttempt,
                      qa_totalQuestions = iqa_totalQuestions insertAttempt,
                      qa_timeSpent = number_or_null (iqa_timeSpent insertAttempt),
                      qa_completedAt = Some now \<rparr>
      in (s\<lparr>quizAttempts := Map_set (quizAttempts s) uuid attempt\<rparr>, attempt))"

subsection \<open>Chat methods\<close>

definition getChatMessagesByDocument :: "MemStorage \<Rightarrow> string \<Rightarrow> ChatMessage list" where
  "getChatMessagesByDocument s documentId =
     filter (\<lambda>msg. cm_documentId msg = Some documentId) (Map_values (chatMessages s))"

definition createChatMessage ::
  "MemStorage \<Rightarrow> string \<Rightarrow> Date \<Rightarrow> InsertChatMessage \<Rightarrow> MemStorage \<times> ChatMessage" where
  "createChatMessage s uuid now insertMessage =
     (let message = \<lparr> cm_id = uuid,
                      cm_userId = icm_userId insertMessage,
                      cm_documentId = string_or_null (icm_documentId insertMessage),
                      cm_message = icm_message insertMessage,
                      cm_response = icm_response insertMessage,
                      cm_createdAt = Some now \<rparr>
      in (s\<lparr>chatMessages := Map_set (chatMessages s) uuid message\<rparr>, message))"

section \<open>The review of a flashcard\<close>

text \<open>
  The route \<open>PUT /api/flashcards/:id\<close> hands the request body to \<open>updateFlashcard\<close> and
  answers 404 when that returns \<open>undefined\<close>, the stored card otherwise. Its \<open>catch\<close>
  branch answers 500; \<open>updateFlashcard\<close> raises nothing, so the model has no such case.
  The encoding of the body on the wire is not modelled.
\<close>

datatype Response = Json Flashcard | Status404 string

definition put_flashcard :: "MemStorage \<Rightarrow> string \<Rightarrow> Partial_Flashcard \<Rightarrow> MemStorage \<times> Response" where
  "put_flashcard s ident updates =
     (case updateFlashcard s ident updates of
        (s', None) \<Rightarrow> (s', Status404 ''Flashcard not found'')
      | (s', Some card') \<Rightarrow> (s', Json card'))"

text \<open>
  \<open>new Date(value)\<close> keeps the integral part of a time value. The interval is computed
  on numbers, one of which is \<open>0.5\<close>, so the argument is a rational.
\<close>

definition new_Date :: "rat \<Rightarrow> Date" where
  "new_Date t = (if 0 \<le> t then \<lfloor>t\<rfloor> else \<lceil>t\<rceil>)"

text \<open>
  The state of the component \<open>FlashcardsSection\<close>, and \<open>handleDifficultyRating\<close>:
  the new state with the mutation it issues, an id and the updates, or \<open>None\<close> for
  both when it returns at once. \<open>currentCards\<close> is the result of the query for the cards
  of the current set, \<open>None\<close> while there is none. The toast is not modelled.
\<close>

record StudyStats =
  correct :: int
  total :: int

record FlashcardsSection =
  currentSet :: "FlashcardSet option"
  currentCardIndex :: nat
  showAnswer :: bool
  studyStats :: StudyStats

definition review_interval :: "string \<Rightarrow> rat" where
  "review_interval difficulty =
     (if difficulty = ''easy'' then 3 else if difficulty = ''medium'' then 1 else 1 / 2)
       * 24 * 60 * 60 * 1000"

definition handleDifficultyRating ::
  "Flashcard list option \<Rightarrow> FlashcardsSection \<Rightarrow> string \<Rightarrow> Date
     \<Rightarrow> (FlashcardsSection \<times> string \<times> Partial_Flashcard) option" where
  "handleDifficultyRating currentCards st difficulty now =
     (case currentCards of
        None \<Rightarrow> None
      | Some cards \<Rightarrow>
          if \<not> currentCardIndex st < length cards then None
          else
            (let card = cards ! currentCardIndex st;
                 isCorrect = (difficulty = ''easy'');
                 nextReview = new_Date (of_int now + review_interval difficulty);
                 updates = \<lparr> pfc_id = None, pfc_setId = None, pfc_question = None,
                             pfc_answer = None,
                             pfc_difficulty = Some (Some difficulty),
                             pfc_lastReviewed = Some (Some now),
                             pfc_nextReview = Some (Some nextReview),
                             pfc_repetitions = Some (Some (number_or (fc_repetitions card) 0 + 1)),
                             pfc_easinessFactor = None \<rparr>;
                 stats = \<lparr> correct = correct (studyStats st) + (if isCorrect then 1 else 0),
                           total = total (studyStats st) + 1 \<rparr>;
                 st' = (if int (currentCardIndex st) < int (length cards) - 1
                        then st\<lparr>studyStats := stats,
                                currentCardIndex := currentCardIndex st + 1,
                                showAnswer := False\<rparr>
                        else st\<lparr>currentSet := None,
                                currentCardIndex := 0,
                                studyStats := \<lparr> correct = 0, total = 0 \<rparr>\<rparr>)
             in Some (st', fc_id card, updates)))"

text \<open>
  A review from end to end: the handler computes the updates from the card the component
  holds, and the mutation sends them to the route, which applies them to the store.
\<close>

definition review ::
  "MemStorage \<Rightarrow> Flashcard list option \<Rightarrow> FlashcardsSection \<Rightarrow> string \<Rightarrow> Date
     \<Rightarrow> MemStorage \<times> Response option" where
  "review s currentCards st difficulty now =
     (case handleDifficultyRating currentCards st difficulty now of
        None \<Rightarrow> (s, None)
      | Some (st', ident, updates) \<Rightarrow>
          (case put_flashcard s ident updates of (s', r) \<Rightarrow> (s', Some r)))"

text \<open>
  The component's query for the cards of the current set: disabled while there is no
  current set or its id is falsy, otherwise the answer of
  \<open>GET /api/flashcard-sets/:id/cards\<close>, which is \<open>getFlashcardsBySet\<close>.
\<close>

definition currentCards_query :: "MemStorage \<Rightarrow> FlashcardsSection \<Rightarrow> Flashcard list option" where
  "currentCards_query s st =
     (case currentSet st of
        None \<Rightarrow> None
      | Some cs \<Rightarrow> if truthy_string (fs_id cs) then Some (getFlashcardsBySet s (fs_id cs)) else None)"

section \<open>Vocabulary of the properties\<close>

text \<open>The empty object \<open>{}\<close> at each \<open>Partial\<close> type.\<close>

definition empty_Partial_User :: Partial_User where
  "empty_Partial_User =
     \<lparr> pu_id = None, pu_username = None, pu_email = None, pu_password = None,
       pu_spotifyAccessToken = None, pu_spotifyRefreshToken = None, pu_createdAt = None \<rparr>"

definition empty_Partial_Note :: Partial_Note where
  "empty_Partial_Note =
     \<lparr> pn_id = None, pn_userId = None, pn_documentId = None, pn_title = None,
       pn_content = None, pn_subject = None, pn_tags = None, pn_wordCount = None,
       pn_createdAt = None, pn_updatedAt = None \<rparr>"

definition empty_Partial_Flashcard :: Partial_Flashcard where
  "empty_Partial_Flashcard =
     \<lparr> pfc_id = None, pfc_setId = None, pfc_question = None, pfc_answer = None,
       pfc_difficulty = None, pfc_lastReviewed = None, pfc_nextReview = None,
       pfc_repetitions = None, pfc_easinessFactor = None \<rparr>"

text \<open>A map has one entry for each key; a store has such maps only.\<close>

definition keys_distinct :: "('k, 'v) JsMap \<Rightarrow> bool" where
  "keys_distinct m \<longleftrightarrow> distinct (map fst m)"

definition one_entry_per_key :: "MemStorage \<Rightarrow> bool" where
  "one_entry_per_key s \<longleftrightarrow>
     keys_distinct (users s) \<and> keys_distinct (documents s) \<and> keys_distinct (notes_map s)
     \<and> keys_distinct (flashcardSets s) \<and> keys_distinct (flashcards s)
     \<and> keys_distinct (quizzes s) \<and> keys_distinct (quizAttempts s)
     \<and> keys_distinct (chatMessages s)"

text \<open>Every flashcard is stored under its own id.\<close>

definition cards_by_id :: "MemStorage \<Rightarrow> bool" where
  "cards_by_id s \<longleftrightarrow>
     keys_distinct (flashcards s) \<and> list_all (\<lambda>p. fc_id (snd p) = fst p) (flashcards s)"

text \<open>The counter of a card, \<open>null\<close> read as 0.\<close>

definition repetitions_of :: "Flashcard \<Rightarrow> int" where
  "repetitions_of c = (case fc_repetitions c of None \<Rightarrow> 0 | Some r \<Rightarrow> r)"

text \<open>
  The review interval in seconds: three days for easy, one day for medium, half a day
  for any other rating.
\<close>

definition interval_seconds :: "string \<Rightarrow> int" where
  "interval_seconds difficulty =
     (if difficulty = ''easy'' then 3 * 86400
      else if difficulty = ''medium'' then 86400
      else 43200)"

text \<open>
  The next review lies strictly after the last one when both are set, of a card and
  of a creation payload.
\<close>

definition schedule_ordered :: "Flashcard \<Rightarrow> bool" where
  "schedule_ordered c =
     (case (fc_lastReviewed c, fc_nextReview c) of
        (Some l, Some n) \<Rightarrow> l < n
      | _ \<Rightarrow> True)"

definition payload_ordered :: "InsertFlashcard \<Rightarrow> bool" where
  "payload_ordered p =
     (case (ifc_lastReviewed p, ifc_nextReview p) of
        (Some l, Some n) \<Rightarrow> l < n
      | _ \<Rightarrow> True)"

text \<open>
  Histories of a store of flashcards: creations and reviews. A review is issued by a
  component in any state, holding any list of cards.
\<close>

datatype Action =
    Create string InsertFlashcard
  | Rate "Flashcard list option" FlashcardsSection string Date

fun step :: "MemStorage \<Rightarrow> Action \<Rightarrow> MemStorage" where
  "step s (Create uuid insertCard) = fst (createFlashcard s uuid insertCard)"
| "step s (Rate currentCards st difficulty now) = fst (review s currentCards st difficulty now)"

fun run :: "MemStorage \<Rightarrow> Action list \<Rightarrow> MemStorage" where
  "run s [] = s"
| "run s (a # as) = run (step s a) as"

fun creations_ordered :: "Action list \<Rightarrow> bool" where
  "creations_ordered [] = True"
| "creations_ordered (Create uuid insertCard # as) = (payload_ordered insertCard \<and> creations_ordered as)"
| "creations_ordered (Rate currentCards st difficulty now # as) = creations_ordered as"

text \<open>
  Ratings in a row: each is made by a component in some state that holds some list of
  cards, with a rating at an instant. \<open>held_counter_stored\<close> says of such ratings that
  each is of the card with the given id, and made from a copy that carries the counter
  the store has for the card at that moment.
\<close>

type_synonym Rating = "Flashcard list \<times> FlashcardsSection \<times> string \<times> Date"

fun rate_all :: "MemStorage \<Rightarrow> Rating list \<Rightarrow> MemStorage" where
  "rate_all s [] = s"
| "rate_all s ((cards, st, difficulty, now) # rs) =
     rate_all (fst (review s (Some cards) st difficulty now)) rs"

fun held_counter_stored :: "MemStorage \<Rightarrow> string \<Rightarrow> Rating list \<Rightarrow> bool" where
  "held_counter_stored s ident [] = True"
| "held_counter_stored s ident ((cards, st, difficulty, now) # rs) =
     (currentCardIndex st < length cards
      \<and> fc_id (cards ! currentCardIndex st) = ident
      \<and> map_option repetitions_of (Map_get (flashcards s) ident)
           = Some (repetitions_of (cards ! currentCardIndex st))
      \<and> held_counter_stored (fst (review s (Some cards) st difficulty now)) ident rs)"

text \<open>
  The updates a review sends for the card \<open>c\<close> the component holds, and the card they
  leave in the store in place of \<open>stored\<close>, written out with the interval in seconds.
\<close>

definition review_updates :: "Flashcard \<Rightarrow> string \<Rightarrow> Date \<Rightarrow> Partial_Flashcard" where
  "review_updates c difficulty now =
     empty_Partial_Flashcard
       \<lparr> pfc_difficulty := Some (Some difficulty),
         pfc_lastReviewed := Some (Some now),
         pfc_nextReview := Some (Some (now + interval_seconds difficulty * 1000)),
         pfc_repetitions := Some (Some (repetitions_of c + 1)) \<rparr>"

definition reviewed :: "Flashcard \<Rightarrow> Flashcard \<Rightarrow> string \<Rightarrow> Date \<Rightarrow> Flashcard" where
  "reviewed stored c difficulty now =
     stored\<lparr> fc_difficulty := Some difficulty,
             fc_lastReviewed := Some now,
             fc_nextReview := Some (now + interval_seconds difficulty * 1000),
             fc_repetitions := Some (repetitions_of c + 1) \<rparr>"

text \<open>The id \<open>k\<close> is not a key of the map.\<close>

definition absent :: "'k \<Rightarrow> ('k, 'v) JsMap \<Rightarrow> bool" where
  "absent k m \<longleftrightarrow> k \<notin> set (map fst m)"

subsection \<open>Concrete stores\<close>

definition card_payload :: "string \<Rightarrow> string \<Rightarrow> InsertFlashcard" where
  "card_payload setId question =
     \<lparr> ifc_setId = setId, ifc_question = question, ifc_answer = ''answer'',
       ifc_difficulty = None, ifc_lastReviewed = None, ifc_nextReview = None,
       ifc_repetitions = None, ifc_easinessFactor = None \<rparr>"

definition fresh_card :: "string \<Rightarrow> string \<Rightarrow> string \<Rightarrow> Flashcard" where
  "fresh_card ident setId question =
     \<lparr> fc_id = ident, fc_setId = setId, fc_question = question, fc_answer = ''answer'',
       fc_difficulty = Some ''medium'', fc_lastReviewed = None, fc_nextReview = None,
       fc_repetitions = Some 0, fc_easinessFactor = Some 250 \<rparr>"

definition four_cards :: MemStorage where
  "four_cards =
     run new_MemStorage
       [Create ''c1'' (card_payload ''S'' ''q1''), Create ''c2'' (card_payload ''T'' ''q2''),
        Create ''c3'' (card_payload ''S'' ''q3''), Create ''c4'' (card_payload ''S'' ''q4'')]"

definition study_set :: FlashcardSet where
  "study_set =
     \<lparr> fs_id = ''S'', fs_userId = ''demo-user'', fs_documentId = None, fs_title = ''set'',
       fs_description = None, fs_cardCount = Some 3, fs_createdAt = Some 0 \<rparr>"

definition studying :: "nat \<Rightarrow> FlashcardsSection" where
  "studying i =
     \<lparr> currentSet = Some study_set, currentCardIndex = i, showAnswer = True,
       studyStats = \<lparr> correct = 0, total = 0 \<rparr> \<rparr>"

definition held_copy :: "int \<Rightarrow> Flashcard list" where
  "held_copy r = [(fresh_card ''c1'' ''S'' ''q1'')\<lparr>fc_repetitions := Some r\<rparr>]"

definition three_ratings :: "Rating list" where
  "three_ratings =
     [(held_copy 0, studying 0, ''easy'', 5000), (held_copy 1, studying 0, ''zzz'', 7000),
      (held_copy 2, studying 0, ''hard'', 9000)]"

definition note_payload :: InsertNote where
  "note_payload =
     \<lparr> in_userId = ''demo-user'', in_documentId = None, in_title = ''title'',
       in_content = ''content'', in_subject = None, in_tags = None, in_wordCount = None \<rparr>"

definition one_note :: MemStorage where
  "one_note = fst (createNote new_MemStorage ''n1'' 1000 note_payload)"

definition reviewed_history :: "Action list" where
  "reviewed_history =
     [Create ''c1'' (card_payload ''S'' ''q1''),
      Create ''c2'' ((card_payload ''S'' ''q2'')\<lparr>ifc_lastReviewed := Some 1000, ifc_nextReview := Some 2000\<rparr>),
      Rate (Some [fresh_card ''c1'' ''S'' ''q1'']) (studying 0) ''hard'' 5000]"

definition unordered_payload :: InsertFlashcard where
  "unordered_payload = (card_payload ''S'' ''q1'')\<lparr>ifc_lastReviewed := Some 2000, ifc_nextReview := Some 1000\<rparr>"


definition user_payload :: InsertUser where
  "user_payload =
     \<lparr> iu_username = ''name'', iu_email = ''name@example.org'', iu_password = ''secret'',
       iu_spotifyAccessToken = None, iu_spotifyRefreshToken = None \<rparr>"

definition mixed_store :: MemStorage where
  "mixed_store =
     fst (createUser (fst (createNote four_cards ''n1'' 1000 note_payload)) ''u1'' 500 user_payload)"

definition first_user :: User where
  "first_user =
     \<lparr> u_id = ''u1'', u_username = ''name'', u_email = ''name@example.org'',
       u_password = ''secret'', u_spotifyAccessToken = None, u_spotifyRefreshToken = None,
       u_createdAt = Some 500 \<rparr>"

definition first_note :: Note where
  "first_note =
     \<lparr> n_id = ''n1'', n_userId = ''demo-user'', n_documentId = None, n_title = ''title'',
       n_content = ''content'', n_subject = None, n_tags = None, n_wordCount = Some 0,
       n_createdAt = Some 1000, n_updatedAt = Some 1000 \<rparr>"

definition note_deleted :: MemStorage where
  "note_deleted = fst (deleteNote mixed_store ''n1'')"

definition email_only :: Partial_User where
  "email_only = empty_Partial_User\<lparr>pu_email := Some ''new@example.org''\<rparr>"

definition title_only :: Partial_Note where
  "title_only = empty_Partial_Note\<lparr>pn_title := Some ''new''\<rparr>"

definition question_only :: Partial_Flashcard where
  "question_only = empty_Partial_Flashcard\<lparr>pfc_question := Some ''new''\<rparr>"

section \<open>Properties of the \<open>Map\<close>\<close>

lemma Map_get_set: "Map_get (Map_set m k v) k' = (if k' = k then Some v else Map_get m k')"
  by (induction m) (auto simp: Map_get_def)

lemma Map_keys_set: "set (map fst (Map_set m k v)) = insert k (set (map fst m))"
  by (induction m) auto

lemma Map_distinct_set: "distinct (map fst m) \<Longrightarrow> distinct (map fst (Map_set m k v))"
  by (induction m) (auto simp: Map_keys_set [simplified])

lemma Map_get_None_iff: "Map_get m k = None \<longleftrightarrow> k \<notin> set (map fst m)"
  by (simp add: Map_get_def map_of_eq_None_iff)

lemma Map_delete_absent: "k \<notin> set (map fst m) \<Longrightarrow> Map_delete m k = (m, False)"
  by (induction m) (auto simp: Map_delete_def)

lemma Map_get_delete:
  "Map_get (fst (Map_delete m k)) k' = (if k' = k then None else Map_get m k')"
  by (induction m) (auto simp: Map_delete_def Map_get_def)

lemma Map_keys_delete: "set (map fst (fst (Map_delete m k))) = set (map fst m) - {k}"
  by (induction m) (auto simp: Map_delete_def)

lemma Map_delete_present: "k \<in> set (map fst m) \<Longrightarrow> snd (Map_delete m k) = True"
  by (simp add: Map_delete_def)

lemma Map_values_iff:
  "distinct (map fst m) \<Longrightarrow> v \<in> set (Map_values m) \<longleftrightarrow> (\<exists>k. Map_get m k = Some v)"
  by (force simp: Map_values_def Map_get_def)

section \<open>The effect of a review\<close>

lemma new_Date_of_int: "new_Date (of_int x) = x"
  by (simp add: new_Date_def)

lemma review_interval_ms: "review_interval d = of_int (interval_seconds d * 1000)"
  by (simp add: review_interval_def interval_seconds_def)

lemma nextReview_ms: "new_Date (of_int now + review_interval d) = now + interval_seconds d * 1000"
proof -
  have "of_int now + review_interval d = (of_int (now + interval_seconds d * 1000) :: rat)"
    by (simp add: review_interval_ms)
  then show ?thesis
    by (simp only: new_Date_of_int)
qed

lemma number_or_0: "number_or r 0 = (case r of None \<Rightarrow> 0 | Some n \<Rightarrow> n)"
  by (simp add: number_or_def or_else_def truthy_number_def split: option.split)

lemma handleDifficultyRating_mutation:
  assumes "currentCardIndex st < length cards"
  shows "\<exists>st'. handleDifficultyRating (Some cards) st d now =
           Some (st', fc_id (cards ! currentCardIndex st),
                 review_updates (cards ! currentCardIndex st) d now)"
  using assms
  by (simp add: handleDifficultyRating_def Let_def nextReview_ms number_or_0
      repetitions_of_def empty_Partial_Flashcard_def review_updates_def)

lemma handleDifficultyRating_None:
  "handleDifficultyRating cc st d now = None \<longleftrightarrow>
     (case cc of None \<Rightarrow> True | Some cards \<Rightarrow> \<not> currentCardIndex st < length cards)"
  by (simp add: handleDifficultyRating_def Let_def split: option.split)

lemma spread_review_updates:
  "spread_Flashcard c0 (review_updates c d now) = reviewed c0 c d now"
  by (simp add: spread_Flashcard_def review_updates_def reviewed_def
      empty_Partial_Flashcard_def spread_def)

lemma review_present:
  assumes i: "currentCardIndex st < length cards"
    and g: "Map_get (flashcards s) (fc_id (cards ! currentCardIndex st)) = Some c0"
  shows "review s (Some cards) st d now =
           (s\<lparr>flashcards := Map_set (flashcards s) (fc_id (cards ! currentCardIndex st))
                                 (reviewed c0 (cards ! currentCardIndex st) d now)\<rparr>,
            Some (Json (reviewed c0 (cards ! currentCardIndex st) d now)))"
proof -
  from handleDifficultyRating_mutation [OF i, of d now] obtain st' where
    h: "handleDifficultyRating (Some cards) st d now =
          Some (st', fc_id (cards ! currentCardIndex st),
                review_updates (cards ! currentCardIndex st) d now)" ..
  show ?thesis
    by (simp add: review_def h put_flashcard_def updateFlashcard_def g Let_def
        spread_review_updates)
qed

lemma review_absent:
  assumes i: "currentCardIndex st < length cards"
    and g: "Map_get (flashcards s) (fc_id (cards ! currentCardIndex st)) = None"
  shows "review s (Some cards) st d now = (s, Some (Status404 ''Flashcard not found''))"
proof -
  from handleDifficultyRating_mutation [OF i, of d now] obtain st' where
    h: "handleDifficultyRating (Some cards) st d now =
          Some (st', fc_id (cards ! currentCardIndex st),
                review_updates (cards ! currentCardIndex st) d now)" ..
  show ?thesis
    by (simp add: review_def h put_flashcard_def updateFlashcard_def g)
qed

section \<open>The concrete stores, evaluated\<close>

lemmas eval_defs = four_cards_def card_payload_def new_MemStorage_def createFlashcard_def
  Let_def number_or_def or_else_def object_or_null_def truthy_number_def truthy_string_def
  getFlashcardsBySet_def Map_values_def Map_get_def studying_def study_set_def
  currentCards_query_def fresh_card_def

lemmas review_eval = review_def put_flashcard_def updateFlashcard_def
  handleDifficultyRating_def spread_Flashcard_def spread_def review_interval_def new_Date_def

lemma four_cards_eq:
  "four_cards = new_MemStorage\<lparr>flashcards :=
     [(''c1'', fresh_card ''c1'' ''S'' ''q1''), (''c2'', fresh_card ''c2'' ''T'' ''q2''),
      (''c3'', fresh_card ''c3'' ''S'' ''q3''), (''c4'', fresh_card ''c4'' ''S'' ''q4'')]\<rparr>"
  by (simp add: eval_defs)

lemma four_cards_S:
  "getFlashcardsBySet four_cards ''S'' =
     [fresh_card ''c1'' ''S'' ''q1'', fresh_card ''c3'' ''S'' ''q3'', fresh_card ''c4'' ''S'' ''q4'']"
  by (simp add: four_cards_eq getFlashcardsBySet_def Map_values_def fresh_card_def)

lemmas store_eval = eval_defs mixed_store_def createNote_def createUser_def note_payload_def
  user_payload_def string_or_null_def first_user_def first_note_def one_note_def

lemma mixed_store_eq:
  "mixed_store = new_MemStorage
     \<lparr> users := [(''u1'', first_user)],
       notes_map := [(''n1'', first_note)],
       flashcards :=
         [(''c1'', fresh_card ''c1'' ''S'' ''q1''), (''c2'', fresh_card ''c2'' ''T'' ''q2''),
          (''c3'', fresh_card ''c3'' ''S'' ''q3''), (''c4'', fresh_card ''c4'' ''S'' ''q4'')] \<rparr>"
  by (simp add: store_eval)

lemma one_note_eq: "one_note = new_MemStorage\<lparr>notes_map := [(''n1'', first_note)]\<rparr>"
  by (simp add: store_eval)

lemma note_deleted_eq:
  "note_deleted = new_MemStorage
     \<lparr> users := [(''u1'', first_user)],
       flashcards :=
         [(''c1'', fresh_card ''c1'' ''S'' ''q1''), (''c2'', fresh_card ''c2'' ''T'' ''q2''),
          (''c3'', fresh_card ''c3'' ''S'' ''q3''), (''c4'', fresh_card ''c4'' ''S'' ''q4'')] \<rparr>"
  and note_was_deleted: "snd (deleteNote mixed_store ''n1'') = True"
  by (simp_all add: note_deleted_def mixed_store_eq deleteNote_def Map_delete_def
      new_MemStorage_def)

section \<open>The schedule a review sets\<close>

text \<open>
  C1. A review with one of the ratings easy, medium and hard, of a card that is in the
  store, answers with the stored card, on which \<open>lastReviewed\<close> is \<open>now\<close>,
  \<open>nextReview\<close> is \<open>now\<close> plus 3 days, 1 day or half a day (a day being 86400
  seconds, a time value counting milliseconds), and \<open>difficulty\<close> is the rating,
  whatever it was before.
\<close>

theorem review_schedule:
  assumes "currentCardIndex st < length cards"
    and "Map_get (flashcards s) (fc_id (cards ! currentCardIndex st)) = Some stored"
    and "difficulty \<in> {''easy'', ''medium'', ''hard''}"
  shows "\<exists>s' c'. review s (Some cards) st difficulty now = (s', Some (Json c'))
           \<and> Map_get (flashcards s') (fc_id (cards ! currentCardIndex st)) = Some c'
           \<and> fc_lastReviewed c' = Some now
           \<and> fc_nextReview c' =
               Some (now + (if difficulty = ''easy'' then 3 * 86400
                            else if difficulty = ''medium'' then 1 * 86400
                            else 86400 div 2) * 1000)
           \<and> fc_difficulty c' = Some difficulty"
  using review_present [OF assms(1,2), of difficulty now]
  by (simp add: Map_get_set reviewed_def interval_seconds_def)

text \<open>
  The card with \<open>repetitions = 0\<close> and \<open>lastReviewed = null\<close>, rated easy at
  2024-01-01T00:00:00Z (time value 1704067200000): the next review is at
  2024-01-04T00:00:00Z (time value 1704326400000).
\<close>

theorem review_schedule_witness:
  "currentCardIndex (studying 0) < length (getFlashcardsBySet four_cards ''S'')
   \<and> Map_get (flashcards four_cards)
        (fc_id (getFlashcardsBySet four_cards ''S'' ! currentCardIndex (studying 0)))
       = Some (fresh_card ''c1'' ''S'' ''q1'')
   \<and> fc_repetitions (fresh_card ''c1'' ''S'' ''q1'') = Some 0
   \<and> fc_lastReviewed (fresh_card ''c1'' ''S'' ''q1'') = None
   \<and> (\<exists>s' c'. review four_cards (Some (getFlashcardsBySet four_cards ''S'')) (studying 0)
                  ''easy'' 1704067200000 = (s', Some (Json c'))
         \<and> Map_get (flashcards s') ''c1'' = Some c'
         \<and> fc_lastReviewed c' = Some 1704067200000
         \<and> fc_nextReview c' = Some 1704326400000
         \<and> fc_difficulty c' = Some ''easy'')"
proof -
  have i: "currentCardIndex (studying 0) < length (getFlashcardsBySet four_cards ''S'')"
    by (simp add: four_cards_S studying_def)
  have g: "Map_get (flashcards four_cards)
        (fc_id (getFlashcardsBySet four_cards ''S'' ! currentCardIndex (studying 0)))
       = Some (fresh_card ''c1'' ''S'' ''q1'')"
    by (simp add: four_cards_S studying_def) (simp add: four_cards_eq Map_get_def fresh_card_def)
  have d: "''easy'' \<in> {''easy'', ''medium'', ''hard''}" by simp
  have k: "fc_id (getFlashcardsBySet four_cards ''S'' ! currentCardIndex (studying 0)) = ''c1''"
    by (simp add: four_cards_S studying_def fresh_card_def)
  from review_schedule [OF i g d, of 1704067200000] i g show ?thesis
    by (simp add: k interval_seconds_def fresh_card_def)
qed

section \<open>Defaults at creation\<close>

text \<open>
  C10. \<open>createFlashcard\<close> replaces a supplied value that is falsy by the default: an
  \<open>easinessFactor\<close> of 0 is stored as 250 and an empty \<open>difficulty\<close> as medium, on the
  card returned and on the card in the store.
\<close>

theorem falsy_defaults:
  "fc_easinessFactor (snd (createFlashcard s uuid (p\<lparr>ifc_easinessFactor := Some 0\<rparr>))) = Some 250
   \<and> Map_get (flashcards (fst (createFlashcard s uuid (p\<lparr>ifc_easinessFactor := Some 0\<rparr>)))) uuid
       = Some (snd (createFlashcard s uuid (p\<lparr>ifc_easinessFactor := Some 0\<rparr>)))
   \<and> fc_difficulty (snd (createFlashcard s uuid (p\<lparr>ifc_difficulty := Some ''''\<rparr>))) = Some ''medium''
   \<and> Map_get (flashcards (fst (createFlashcard s uuid (p\<lparr>ifc_difficulty := Some ''''\<rparr>)))) uuid
       = Some (snd (createFlashcard s uuid (p\<lparr>ifc_difficulty := Some ''''\<rparr>)))"
  by (simp add: createFlashcard_def Let_def number_or_def or_else_def truthy_number_def
      truthy_string_def Map_get_set)

section \<open>A rating outside the three\<close>

text \<open>
  C2. A rating that is neither easy nor medium is not rejected: the handler issues its
  mutation as for any rating, with the rating itself as \<open>difficulty\<close> and a next review
  half a day (43200 seconds) after \<open>now\<close>, the interval of hard; the route answers
  with the stored card when the card is in the store and with 404 otherwise, never with
  an error about the rating.
\<close>

theorem unknown_difficulty_hard_interval:
  assumes "difficulty \<noteq> ''easy''" and "difficulty \<noteq> ''medium''"
    and "currentCardIndex st < length cards"
  shows "(\<exists>st' updates.
            handleDifficultyRating (Some cards) st difficulty now =
              Some (st', fc_id (cards ! currentCardIndex st), updates)
            \<and> pfc_difficulty updates = Some (Some difficulty)
            \<and> pfc_nextReview updates = Some (Some (now + 43200 * 1000)))
         \<and> (case Map_get (flashcards s) (fc_id (cards ! currentCardIndex st)) of
               None \<Rightarrow> review s (Some cards) st difficulty now =
                         (s, Some (Status404 ''Flashcard not found''))
             | Some stored \<Rightarrow>
                 (\<exists>s' c'. review s (Some cards) st difficulty now = (s', Some (Json c'))
                    \<and> Map_get (flashcards s') (fc_id (cards ! currentCardIndex st)) = Some c'
                    \<and> fc_difficulty c' = Some difficulty
                    \<and> fc_nextReview c' = Some (now + 43200 * 1000)))"
proof
  from handleDifficultyRating_mutation [OF assms(3), of difficulty now] assms(1,2)
  show "\<exists>st' updates.
            handleDifficultyRating (Some cards) st difficulty now =
              Some (st', fc_id (cards ! currentCardIndex st), updates)
            \<and> pfc_difficulty updates = Some (Some difficulty)
            \<and> pfc_nextReview updates = Some (Some (now + 43200 * 1000))"
    by (auto simp: review_updates_def interval_seconds_def empty_Partial_Flashcard_def)
next
  show "case Map_get (flashcards s) (fc_id (cards ! currentCardIndex st)) of
               None \<Rightarrow> review s (Some cards) st difficulty now =
                         (s, Some (Status404 ''Flashcard not found''))
             | Some stored \<Rightarrow>
                 (\<exists>s' c'. review s (Some cards) st difficulty now = (s', Some (Json c'))
                    \<and> Map_get (flashcards s') (fc_id (cards ! currentCardIndex st)) = Some c'
                    \<and> fc_difficulty c' = Some difficulty
                    \<and> fc_nextReview c' = Some (now + 43200 * 1000))"
  proof (cases "Map_get (flashcards s) (fc_id (cards ! currentCardIndex st))")
    case None
    then show ?thesis
      by (simp add: review_absent [OF assms(3)])
  next
    case (Some stored)
    with assms(1,2) show ?thesis
      by (simp add: review_present [OF assms(3) Some] Map_get_set reviewed_def
          interval_seconds_def)
  qed
qed

lemma four_cards_get_c1:
  "Map_get (flashcards four_cards) ''c1'' = Some (fresh_card ''c1'' ''S'' ''q1'')"
  by (simp add: four_cards_eq Map_get_def)

theorem unknown_difficulty_hard_interval_witness:
  "''zzz'' \<noteq> ''easy'' \<and> ''zzz'' \<noteq> ''medium''
   \<and> currentCardIndex (studying 0) < length (getFlashcardsBySet four_cards ''S'')
   \<and> (\<exists>st' updates.
         handleDifficultyRating (Some (getFlashcardsBySet four_cards ''S'')) (studying 0) ''zzz'' 7 =
           Some (st', ''c1'', updates)
         \<and> pfc_difficulty updates = Some (Some ''zzz'')
         \<and> pfc_nextReview updates = Some (Some 43200007))
   \<and> (\<exists>s' c'. review four_cards (Some (getFlashcardsBySet four_cards ''S'')) (studying 0) ''zzz'' 7
                 = (s', Some (Json c'))
         \<and> Map_get (flashcards s') ''c1'' = Some c'
         \<and> fc_difficulty c' = Some ''zzz''
         \<and> fc_nextReview c' = Some 43200007)"
proof -
  have a: "''zzz'' \<noteq> ''easy''" and b: "''zzz'' \<noteq> ''medium''" by simp_all
  have i: "currentCardIndex (studying 0) < length (getFlashcardsBySet four_cards ''S'')"
    by (simp add: four_cards_S studying_def)
  have k: "fc_id (getFlashcardsBySet four_cards ''S'' ! currentCardIndex (studying 0)) = ''c1''"
    by (simp add: four_cards_S studying_def fresh_card_def)
  from unknown_difficulty_hard_interval [OF a b i, of 7 four_cards] i show ?thesis
    by (simp add: k four_cards_get_c1)
qed

section \<open>The repetition counter\<close>

lemma Map_set_list_all:
  "list_all P m \<Longrightarrow> P (k, v) \<Longrightarrow> list_all P (Map_set m k v)"
  by (induction m) auto

lemma Map_get_list_all:
  "list_all P m \<Longrightarrow> Map_get m k = Some v \<Longrightarrow> P (k, v)"
  by (auto simp: Map_get_def list_all_iff dest: map_of_SomeD)

lemma keys_distinct_set: "keys_distinct m \<Longrightarrow> keys_distinct (Map_set m k v)"
  by (simp add: keys_distinct_def Map_distinct_set)

lemma cards_by_id_stored:
  assumes "cards_by_id s" and "Map_get (flashcards s) k = Some c"
  shows "fc_id c = k"
  using Map_get_list_all [of "\<lambda>p. fc_id (snd p) = fst p" "flashcards s" k c] assms
  by (simp add: cards_by_id_def)

lemma cards_by_id_member:
  assumes "cards_by_id s" and "c \<in> set (Map_values (flashcards s))"
  shows "Map_get (flashcards s) (fc_id c) = Some c"
proof -
  from assms(2) obtain k where k: "(k, c) \<in> set (flashcards s)"
    by (auto simp: Map_values_def)
  with assms(1) have "fc_id c = k"
    by (auto simp: cards_by_id_def list_all_iff)
  with k assms(1) show ?thesis
    by (simp add: cards_by_id_def keys_distinct_def Map_get_def)
qed

lemma reviewed_id [simp]: "fc_id (reviewed c0 c d now) = fc_id c0"
  and reviewed_setId [simp]: "fc_setId (reviewed c0 c d now) = fc_setId c0"
  and reviewed_repetitions: "repetitions_of (reviewed c0 c d now) = repetitions_of c + 1"
  by (simp_all add: reviewed_def repetitions_of_def)

lemma cards_by_id_review:
  assumes "cards_by_id s"
  shows "cards_by_id (fst (review s cc st d now))"
proof (cases "handleDifficultyRating cc st d now")
  case None
  with assms show ?thesis by (simp add: review_def)
next
  case (Some r)
  then obtain cards where cc: "cc = Some cards" and i: "currentCardIndex st < length cards"
    by (cases cc) (auto simp: handleDifficultyRating_def split: if_splits)
  let ?k = "fc_id (cards ! currentCardIndex st)"
  show ?thesis
  proof (cases "Map_get (flashcards s) ?k")
    case None
    with assms show ?thesis by (simp add: cc review_absent [OF i])
  next
    case (Some c0)
    from cards_by_id_stored [OF assms Some] assms show ?thesis
      by (simp add: cc review_present [OF i Some] cards_by_id_def keys_distinct_set
          Map_set_list_all)
  qed
qed

lemma cards_by_id_four_cards: "cards_by_id four_cards"
  by (simp add: four_cards_eq cards_by_id_def keys_distinct_def fresh_card_def)

lemma fetched_copy_is_stored:
  assumes "cards_by_id s" and "currentCards_query s st = Some cards"
    and "currentCardIndex st < length cards"
  shows "Map_get (flashcards s) (fc_id (cards ! currentCardIndex st))
           = Some (cards ! currentCardIndex st)"
proof -
  from assms(2) obtain cs where "currentSet st = Some cs"
    and cards: "cards = getFlashcardsBySet s (fs_id cs)"
    by (auto simp: currentCards_query_def split: option.splits if_splits)
  with assms(3) have "cards ! currentCardIndex st \<in> set (Map_values (flashcards s))"
    using nth_mem [of "currentCardIndex st" cards] by (simp add: getFlashcardsBySet_def)
  from cards_by_id_member [OF assms(1) this] show ?thesis .
qed

lemma review_counter:
  assumes "currentCardIndex st < length cards"
    and "Map_get (flashcards s) (fc_id (cards ! currentCardIndex st)) = Some stored"
  shows "\<exists>c'. review s (Some cards) st difficulty now
                 = (s\<lparr>flashcards := Map_set (flashcards s) (fc_id (cards ! currentCardIndex st)) c'\<rparr>,
                    Some (Json c'))
           \<and> Map_get (flashcards (fst (review s (Some cards) st difficulty now)))
                (fc_id (cards ! currentCardIndex st)) = Some c'
           \<and> fc_repetitions c' = Some (repetitions_of (cards ! currentCardIndex st) + 1)"
  by (simp add: review_present [OF assms] Map_get_set reviewed_def)

lemma rate_all_counter:
  assumes "held_counter_stored s ident rs" and "Map_get (flashcards s) ident = Some c"
  shows "\<exists>c'. Map_get (flashcards (rate_all s rs)) ident = Some c'
           \<and> repetitions_of c' = repetitions_of c + int (length rs)"
  using assms
proof (induction rs arbitrary: s c)
  case Nil
  then show ?case by simp
next
  case (Cons r rs)
  obtain cards st d now where r: "r = (cards, st, d, now)" by (cases r)
  from Cons.prems r have i: "currentCardIndex st < length cards"
    and k: "fc_id (cards ! currentCardIndex st) = ident"
    and h: "repetitions_of c = repetitions_of (cards ! currentCardIndex st)"
    and rest: "held_counter_stored (fst (review s (Some cards) st d now)) ident rs"
    by simp_all
  from Cons.prems(2) k
  have g: "Map_get (flashcards s) (fc_id (cards ! currentCardIndex st)) = Some c" by simp
  let ?c1 = "reviewed c (cards ! currentCardIndex st) d now"
  have g1: "Map_get (flashcards (fst (review s (Some cards) st d now))) ident = Some ?c1"
    by (simp add: review_present [OF i g] Map_get_set k)
  from Cons.IH [OF rest g1] obtain c' where
    "Map_get (flashcards (rate_all (fst (review s (Some cards) st d now)) rs)) ident = Some c'"
    "repetitions_of c' = repetitions_of ?c1 + int (length rs)"
    by blast
  then show ?case
    by (simp add: r reviewed_repetitions h)
qed

text \<open>
  C3, as the code has it. A review of a card that the store holds under the id of the
  copy the reviewing component holds stores, whatever the rating and the former
  difficulty, a counter of exactly 1 more than the counter of that copy, \<open>null\<close> read
  as 0. So a review made from a copy that carries the stored counter adds exactly 1 to
  the stored counter; and after any number of such reviews of one card, by components
  in any states with any ratings, the counter stands at its first value plus the number
  of reviews.
\<close>

theorem repetitions_increment:
  "(currentCardIndex st < length cards
      \<and> Map_get (flashcards s) (fc_id (cards ! currentCardIndex st)) = Some stored \<longrightarrow>
      (\<exists>c'. review s (Some cards) st difficulty now
                 = (s\<lparr>flashcards := Map_set (flashcards s) (fc_id (cards ! currentCardIndex st)) c'\<rparr>,
                    Some (Json c'))
         \<and> Map_get (flashcards (fst (review s (Some cards) st difficulty now)))
              (fc_id (cards ! currentCardIndex st)) = Some c'
         \<and> fc_repetitions c' = Some (repetitions_of (cards ! currentCardIndex st) + 1)
         \<and> (repetitions_of (cards ! currentCardIndex st) = repetitions_of stored \<longrightarrow>
               repetitions_of c' = repetitions_of stored + 1)))
   \<and> (held_counter_stored s ident rs \<and> Map_get (flashcards s) ident = Some c \<longrightarrow>
      (\<exists>c'. Map_get (flashcards (rate_all s rs)) ident = Some c'
         \<and> repetitions_of c' = repetitions_of c + int (length rs)))"
proof (intro conjI impI)
  assume a: "currentCardIndex st < length cards
      \<and> Map_get (flashcards s) (fc_id (cards ! currentCardIndex st)) = Some stored"
  then have i: "currentCardIndex st < length cards"
    and g: "Map_get (flashcards s) (fc_id (cards ! currentCardIndex st)) = Some stored"
    by simp_all
  from review_counter [OF i g, of difficulty now] obtain c' where
    c': "review s (Some cards) st difficulty now
           = (s\<lparr>flashcards := Map_set (flashcards s) (fc_id (cards ! currentCardIndex st)) c'\<rparr>,
              Some (Json c'))"
      "Map_get (flashcards (fst (review s (Some cards) st difficulty now)))
         (fc_id (cards ! currentCardIndex st)) = Some c'"
      "fc_repetitions c' = Some (repetitions_of (cards ! currentCardIndex st) + 1)"
    by blast
  from c'(3) have "repetitions_of c' = repetitions_of (cards ! currentCardIndex st) + 1"
    by (simp add: repetitions_of_def)
  with c' show "\<exists>c'. review s (Some cards) st difficulty now
                 = (s\<lparr>flashcards := Map_set (flashcards s) (fc_id (cards ! currentCardIndex st)) c'\<rparr>,
                    Some (Json c'))
         \<and> Map_get (flashcards (fst (review s (Some cards) st difficulty now)))
              (fc_id (cards ! currentCardIndex st)) = Some c'
         \<and> fc_repetitions c' = Some (repetitions_of (cards ! currentCardIndex st) + 1)
         \<and> (repetitions_of (cards ! currentCardIndex st) = repetitions_of stored \<longrightarrow>
               repetitions_of c' = repetitions_of stored + 1)"
    by auto
next
  assume "held_counter_stored s ident rs \<and> Map_get (flashcards s) ident = Some c"
  then show "\<exists>c'. Map_get (flashcards (rate_all s rs)) ident = Some c'
         \<and> repetitions_of c' = repetitions_of c + int (length rs)"
    using rate_all_counter [of s ident rs c] by simp
qed

lemmas rating_eval = three_ratings_def held_copy_def repetitions_of_def eval_defs review_eval

lemma three_ratings_held: "held_counter_stored four_cards ''c1'' three_ratings"
  by (simp add: rating_eval)

lemma three_ratings_counter:
  "map_option repetitions_of (Map_get (flashcards (rate_all four_cards three_ratings)) ''c1'')
     = Some 3"
  by (simp add: rating_eval)

text \<open>
  One rating, and three in a row, each from a copy with the counter of the store, of the
  first of four cards.
\<close>

theorem repetitions_increment_witness:
  "currentCardIndex (studying 0) < length (held_copy 0)
   \<and> Map_get (flashcards four_cards) (fc_id (held_copy 0 ! currentCardIndex (studying 0)))
       = Some (fresh_card ''c1'' ''S'' ''q1'')
   \<and> repetitions_of (held_copy 0 ! currentCardIndex (studying 0))
       = repetitions_of (fresh_card ''c1'' ''S'' ''q1'')
   \<and> held_counter_stored four_cards ''c1'' three_ratings
   \<and> Map_get (flashcards four_cards) ''c1'' = Some (fresh_card ''c1'' ''S'' ''q1'')
   \<and> repetitions_of (fresh_card ''c1'' ''S'' ''q1'') = 0
   \<and> (\<exists>c'. Map_get (flashcards (fst (review four_cards (Some (held_copy 0)) (studying 0)
                                         ''easy'' 5000))) ''c1'' = Some c'
         \<and> fc_repetitions c' = Some 1 \<and> repetitions_of c' = 1)
   \<and> (\<exists>c'. Map_get (flashcards (rate_all four_cards three_ratings)) ''c1'' = Some c'
         \<and> repetitions_of c' = 3)"
proof -
  have i: "currentCardIndex (studying 0) < length (held_copy 0)"
    by (simp add: studying_def held_copy_def)
  have k: "fc_id (held_copy 0 ! currentCardIndex (studying 0)) = ''c1''"
    by (simp add: studying_def held_copy_def fresh_card_def)
  have g: "Map_get (flashcards four_cards) ''c1'' = Some (fresh_card ''c1'' ''S'' ''q1'')"
    by (rule four_cards_get_c1)
  have r: "repetitions_of (held_copy 0 ! currentCardIndex (studying 0)) = 0"
    "repetitions_of (fresh_card ''c1'' ''S'' ''q1'') = 0"
    by (simp_all add: studying_def held_copy_def fresh_card_def repetitions_of_def)
  have n: "length three_ratings = 3" by (simp add: three_ratings_def)
  from repetitions_increment [where s = four_cards and cards = "held_copy 0"
      and st = "studying 0" and stored = "fresh_card ''c1'' ''S'' ''q1''"
      and difficulty = "''easy''" and now = 5000 and ident = "''c1''"
      and rs = three_ratings and c = "fresh_card ''c1'' ''S'' ''q1''"]
    i g three_ratings_held
  show ?thesis
    by (auto simp add: k r n simp del: rate_all.simps held_counter_stored.simps)
qed

text \<open>
  C3 as stated fails for a review made from an older copy, since the counter sent is
  computed from the copy and not from the store: two ratings from the cards fetched
  once leave the counter at 1, and after three ratings that brought it to 3, a rating
  from the cards fetched at first lowers it to 1.
\<close>

theorem stale_copy_counterexample:
  "map_option repetitions_of (Map_get (flashcards four_cards) ''c1'') = Some 0
   \<and> map_option repetitions_of
        (Map_get (flashcards
           (rate_all four_cards
              [(getFlashcardsBySet four_cards ''S'', studying 0, ''easy'', 5000)])) ''c1'')
       = Some 1
   \<and> map_option repetitions_of
        (Map_get (flashcards
           (rate_all four_cards
              [(getFlashcardsBySet four_cards ''S'', studying 0, ''easy'', 5000),
               (getFlashcardsBySet four_cards ''S'', studying 0, ''medium'', 6000)])) ''c1'')
       = Some 1
   \<and> map_option repetitions_of (Map_get (flashcards (rate_all four_cards three_ratings)) ''c1'')
       = Some 3
   \<and> map_option repetitions_of
        (Map_get (flashcards
           (rate_all (rate_all four_cards three_ratings)
              [(getFlashcardsBySet four_cards ''S'', studying 0, ''easy'', 9500)])) ''c1'')
       = Some 1"
  by (simp add: rating_eval)


section \<open>The order of the two review dates\<close>

lemma cards_by_id_create:
  assumes "cards_by_id s"
  shows "cards_by_id (fst (createFlashcard s uuid p))"
  using assms
  by (simp add: createFlashcard_def Let_def cards_by_id_def keys_distinct_set Map_set_list_all)

lemma cards_by_id_run: "cards_by_id s \<Longrightarrow> cards_by_id (run s as)"
proof (induction as arbitrary: s)
  case Nil
  then show ?case by simp
next
  case (Cons a as)
  then show ?case
    by (cases a) (simp_all add: cards_by_id_create cards_by_id_review)
qed

lemma cards_by_id_new: "cards_by_id new_MemStorage"
  by (simp add: cards_by_id_def keys_distinct_def new_MemStorage_def)

lemma Map_set_values_all:
  "list_all P (Map_values m) \<Longrightarrow> P v \<Longrightarrow> list_all P (Map_values (Map_set m k v))"
  by (induction m) (auto simp: Map_values_def)

lemma Map_get_values_all:
  "list_all P (Map_values m) \<Longrightarrow> Map_get m k = Some v \<Longrightarrow> P v"
  by (auto simp: Map_values_def Map_get_def list_all_iff dest!: map_of_SomeD)

lemma interval_seconds_pos: "0 < interval_seconds d"
  by (simp add: interval_seconds_def)

lemma reviewed_ordered: "schedule_ordered (reviewed c0 c d now)"
  using interval_seconds_pos [of d] by (simp add: schedule_ordered_def reviewed_def)

lemma created_ordered:
  "payload_ordered p \<Longrightarrow> schedule_ordered (snd (createFlashcard s uuid p))"
  by (simp add: createFlashcard_def Let_def payload_ordered_def schedule_ordered_def
      object_or_null_def or_else_def split: option.splits)

lemma ordered_create:
  assumes "list_all schedule_ordered (Map_values (flashcards s))" and "payload_ordered p"
  shows "list_all schedule_ordered (Map_values (flashcards (fst (createFlashcard s uuid p))))"
proof -
  have "fst (createFlashcard s uuid p) =
          s\<lparr>flashcards := Map_set (flashcards s) uuid (snd (createFlashcard s uuid p))\<rparr>"
    by (simp add: createFlashcard_def Let_def)
  with assms created_ordered [OF assms(2), of s uuid] show ?thesis
    by (simp add: Map_set_values_all)
qed

lemma ordered_review:
  assumes "list_all schedule_ordered (Map_values (flashcards s))"
  shows "list_all schedule_ordered (Map_values (flashcards (fst (review s cc st d now))))"
proof (cases "handleDifficultyRating cc st d now")
  case None
  with assms show ?thesis by (simp add: review_def)
next
  case (Some r)
  then obtain cards where cc: "cc = Some cards" and i: "currentCardIndex st < length cards"
    by (cases cc) (auto simp: handleDifficultyRating_def split: if_splits)
  show ?thesis
  proof (cases "Map_get (flashcards s) (fc_id (cards ! currentCardIndex st))")
    case None
    with assms show ?thesis by (simp add: cc review_absent [OF i])
  next
    case (Some c0)
    with assms show ?thesis
      by (simp add: cc review_present [OF i Some] Map_set_values_all reviewed_ordered)
  qed
qed

text \<open>
  C4, as the code has it. In a store built from the empty one by creations and reviews,
  where no creation payload supplies a \<open>nextReview\<close> at or before its
  \<open>lastReviewed\<close>, every card that has both dates has its \<open>nextReview\<close> strictly
  after its \<open>lastReviewed\<close>. The reviews are any, by components in any states that
  hold any cards.
\<close>

theorem schedule_ordered_reachable:
  assumes "creations_ordered as"
  shows "list_all schedule_ordered (Map_values (flashcards (run new_MemStorage as)))"
proof -
  have "list_all schedule_ordered (Map_values (flashcards (run s as)))"
    if "list_all schedule_ordered (Map_values (flashcards s))" and "creations_ordered as" for s
    using that
  proof (induction as arbitrary: s)
    case Nil
    then show ?case by simp
  next
    case (Cons a as)
    then show ?case
      by (cases a) (simp_all add: ordered_create ordered_review)
  qed
  moreover have "list_all schedule_ordered (Map_values (flashcards new_MemStorage))"
    by (simp add: new_MemStorage_def Map_values_def)
  ultimately show ?thesis using assms by blast
qed

lemma reviewed_history_run:
  "Map_values (flashcards (run new_MemStorage reviewed_history)) =
     [(fresh_card ''c1'' ''S'' ''q1'')
        \<lparr>fc_difficulty := Some ''hard'', fc_lastReviewed := Some 5000,
         fc_nextReview := Some 43205000, fc_repetitions := Some 1\<rparr>,
      (fresh_card ''c2'' ''S'' ''q2'')\<lparr>fc_lastReviewed := Some 1000, fc_nextReview := Some 2000\<rparr>]"
  by (simp add: reviewed_history_def eval_defs review_eval)

theorem schedule_ordered_reachable_witness:
  "creations_ordered reviewed_history
   \<and> list_all schedule_ordered (Map_values (flashcards (run new_MemStorage reviewed_history)))
   \<and> Map_values (flashcards (run new_MemStorage reviewed_history)) =
       [(fresh_card ''c1'' ''S'' ''q1'')
          \<lparr>fc_difficulty := Some ''hard'', fc_lastReviewed := Some 5000,
           fc_nextReview := Some 43205000, fc_repetitions := Some 1\<rparr>,
        (fresh_card ''c2'' ''S'' ''q2'')\<lparr>fc_lastReviewed := Some 1000, fc_nextReview := Some 2000\<rparr>]"
proof -
  have h: "creations_ordered reviewed_history"
    by (simp add: reviewed_history_def payload_ordered_def card_payload_def)
  from schedule_ordered_reachable [OF h] h reviewed_history_run show ?thesis
    by simp
qed

text \<open>
  C4 as stated fails at creation, which stores the two dates of the payload as they
  come: a card created with \<open>lastReviewed\<close> 2000 and \<open>nextReview\<close> 1000 has both
  set and the next review before the last.
\<close>

theorem creation_unordered_counterexample:
  "\<not> list_all schedule_ordered
        (Map_values (flashcards (run new_MemStorage [Create ''c1'' unordered_payload])))"
  by (simp add: unordered_payload_def eval_defs schedule_ordered_def)

section \<open>Reading back what was created\<close>

lemma Map_set_values_mem: "v \<in> set (Map_values (Map_set m k v))"
  by (induction m) (auto simp: Map_values_def)

text \<open>
  C5. For each of the eight entity types, the record a creation returns carries the
  generated id and is what the store then holds under that id: what \<open>getUser\<close>,
  \<open>getDocument\<close>, \<open>getNote\<close>, \<open>getFlashcardSet\<close> and \<open>getQuiz\<close> return for
  it, and for flashcards, quiz attempts and chat messages, which have no such method,
  what the lookup in their map returns and an element of their listing (for a chat
  message without a document, which no listing shows, of the values of the map).
\<close>

theorem create_then_get:
  "(case createUser s uuid now insertUser of
      (s', user) \<Rightarrow> u_id user = uuid \<and> getUser s' (u_id user) = Some user)
   \<and> (case createDocument s uuid now insertDocument of
      (s', document) \<Rightarrow> d_id document = uuid \<and> getDocument s' (d_id document) = Some document)
   \<and> (case createNote s uuid now insertNote of
      (s', note) \<Rightarrow> n_id note = uuid \<and> getNote s' (n_id note) = Some note)
   \<and> (case createFlashcardSet s uuid now insertSet of
      (s', fset) \<Rightarrow> fs_id fset = uuid \<and> getFlashcardSet s' (fs_id fset) = Some fset)
   \<and> (case createFlashcard s uuid insertCard of
      (s', c) \<Rightarrow> fc_id c = uuid \<and> Map_get (flashcards s') (fc_id c) = Some c
                  \<and> c \<in> set (getFlashcardsBySet s' (fc_setId c)))
   \<and> (case createQuiz s uuid now insertQuiz of
      (s', quiz) \<Rightarrow> q_id quiz = uuid \<and> getQuiz s' (q_id quiz) = Some quiz)
   \<and> (case createQuizAttempt s uuid now insertAttempt of
      (s', attempt) \<Rightarrow> qa_id attempt = uuid \<and> Map_get (quizAttempts s') (qa_id attempt) = Some attempt
                  \<and> attempt \<in> set (getQuizAttemptsByUser s' (qa_userId attempt)))
   \<and> (case createChatMessage s uuid now insertMessage of
      (s', message) \<Rightarrow> cm_id message = uuid \<and> Map_get (chatMessages s') (cm_id message) = Some message
                  \<and> (case cm_documentId message of
                        None \<Rightarrow> message \<in> set (Map_values (chatMessages s'))
                      | Some d \<Rightarrow> message \<in> set (getChatMessagesByDocument s' d)))"
proof (intro conjI)
  show "case createUser s uuid now insertUser of
      (s', user) \<Rightarrow> u_id user = uuid \<and> getUser s' (u_id user) = Some user"
    by (simp add: createUser_def getUser_def Let_def Map_get_set)
  show "case createDocument s uuid now insertDocument of
      (s', document) \<Rightarrow> d_id document = uuid \<and> getDocument s' (d_id document) = Some document"
    by (simp add: createDocument_def getDocument_def Let_def Map_get_set)
  show "case createNote s uuid now insertNote of
      (s', note) \<Rightarrow> n_id note = uuid \<and> getNote s' (n_id note) = Some note"
    by (simp add: createNote_def getNote_def Let_def Map_get_set)
  show "case createFlashcardSet s uuid now insertSet of
      (s', fset) \<Rightarrow> fs_id fset = uuid \<and> getFlashcardSet s' (fs_id fset) = Some fset"
    by (simp add: createFlashcardSet_def getFlashcardSet_def Let_def Map_get_set)
  show "case createFlashcard s uuid insertCard of
      (s', c) \<Rightarrow> fc_id c = uuid \<and> Map_get (flashcards s') (fc_id c) = Some c
                  \<and> c \<in> set (getFlashcardsBySet s' (fc_setId c))"
    by (simp add: createFlashcard_def getFlashcardsBySet_def Let_def Map_get_set
        Map_set_values_mem)
  show "case createQuiz s uuid now insertQuiz of
      (s', quiz) \<Rightarrow> q_id quiz = uuid \<and> getQuiz s' (q_id quiz) = Some quiz"
    by (simp add: createQuiz_def getQuiz_def Let_def Map_get_set)
  show "case createQuizAttempt s uuid now insertAttempt of
      (s', attempt) \<Rightarrow> qa_id attempt = uuid \<and> Map_get (quizAttempts s') (qa_id attempt) = Some attempt
                  \<and> attempt \<in> set (getQuizAttemptsByUser s' (qa_userId attempt))"
    by (simp add: createQuizAttempt_def getQuizAttemptsByUser_def Let_def Map_get_set
        Map_set_values_mem)
  show "case createChatMessage s uuid now insertMessage of
      (s', message) \<Rightarrow> cm_id message = uuid \<and> Map_get (chatMessages s') (cm_id message) = Some message
                  \<and> (case cm_documentId message of
                        None \<Rightarrow> message \<in> set (Map_values (chatMessages s'))
                      | Some d \<Rightarrow> message \<in> set (getChatMessagesByDocument s' d))"
    by (simp add: createChatMessage_def getChatMessagesByDocument_def Let_def Map_get_set
        Map_set_values_mem split: option.split)
qed

section \<open>Ids that are not in the store\<close>

lemma absent_get: "absent k m \<Longrightarrow> Map_get m k = None"
  by (simp add: absent_def Map_get_None_iff)

lemma absent_delete: "absent k m \<Longrightarrow> Map_delete m k = (m, False)"
  by (simp add: absent_def Map_delete_absent)

lemma absent_after_delete: "absent k (fst (Map_delete m k))"
  unfolding absent_def Map_keys_delete by simp

text \<open>
  C6. For an id that is not a key of the map of its type: the get methods return
  \<open>undefined\<close>; the update methods return \<open>undefined\<close>, the delete methods
  \<open>false\<close>, and the review of a card with that id is answered 404, each leaving the
  store as it was. An id is not a key any more once it has been deleted. Every method
  is a total function with a result, so none raises.
\<close>

theorem absent_id_not_found:
  "(absent k (users s) \<longrightarrow> getUser s k = None \<and> updateUser s k pu = (s, None))
   \<and> (absent k (documents s) \<longrightarrow> getDocument s k = None \<and> deleteDocument s k = (s, False))
   \<and> (absent k (notes_map s) \<longrightarrow>
         getNote s k = None \<and> updateNote s k now pn = (s, None) \<and> deleteNote s k = (s, False))
   \<and> (absent k (flashcardSets s) \<longrightarrow> getFlashcardSet s k = None)
   \<and> (absent k (flashcards s) \<longrightarrow>
         updateFlashcard s k pfc = (s, None)
         \<and> put_flashcard s k pfc = (s, Status404 ''Flashcard not found''))
   \<and> (absent k (flashcards s) \<and> currentCardIndex st < length cards
        \<and> fc_id (cards ! currentCardIndex st) = k \<longrightarrow>
         review s (Some cards) st difficulty now = (s, Some (Status404 ''Flashcard not found'')))
   \<and> (absent k (quizzes s) \<longrightarrow> getQuiz s k = None)
   \<and> absent k (documents (fst (deleteDocument s k)))
   \<and> absent k (notes_map (fst (deleteNote s k)))"
proof (intro conjI impI)
  assume "absent k (users s)"
  then show "getUser s k = None" and "updateUser s k pu = (s, None)"
    by (simp_all add: getUser_def updateUser_def absent_get)
next
  assume "absent k (documents s)"
  then show "getDocument s k = None" and "deleteDocument s k = (s, False)"
    by (simp_all add: getDocument_def deleteDocument_def absent_get absent_delete)
next
  assume "absent k (notes_map s)"
  then show "getNote s k = None" and "updateNote s k now pn = (s, None)"
    and "deleteNote s k = (s, False)"
    by (simp_all add: getNote_def updateNote_def deleteNote_def absent_get absent_delete)
next
  assume "absent k (flashcardSets s)"
  then show "getFlashcardSet s k = None"
    by (simp add: getFlashcardSet_def absent_get)
next
  assume "absent k (flashcards s)"
  then show "updateFlashcard s k pfc = (s, None)"
    and "put_flashcard s k pfc = (s, Status404 ''Flashcard not found'')"
    by (simp_all add: put_flashcard_def updateFlashcard_def absent_get)
next
  assume a: "absent k (flashcards s) \<and> currentCardIndex st < length cards
        \<and> fc_id (cards ! currentCardIndex st) = k"
  then have "Map_get (flashcards s) (fc_id (cards ! currentCardIndex st)) = None"
    by (simp add: absent_get)
  with a show "review s (Some cards) st difficulty now = (s, Some (Status404 ''Flashcard not found''))"
    by (simp add: review_absent)
next
  assume "absent k (quizzes s)"
  then show "getQuiz s k = None"
    by (simp add: getQuiz_def absent_get)
next
  show "absent k (documents (fst (deleteDocument s k)))"
    by (simp add: deleteDocument_def split_beta absent_after_delete)
  show "absent k (notes_map (fst (deleteNote s k)))"
    by (simp add: deleteNote_def split_beta absent_after_delete)
qed

text \<open>
  The id of a note that has just been deleted, in a store with a user and four cards.
\<close>

theorem absent_id_not_found_witness:
  "snd (deleteNote mixed_store ''n1'') = True
   \<and> absent ''n1'' (users note_deleted) \<and> absent ''n1'' (documents note_deleted)
   \<and> absent ''n1'' (notes_map note_deleted) \<and> absent ''n1'' (flashcardSets note_deleted)
   \<and> absent ''n1'' (flashcards note_deleted) \<and> absent ''n1'' (quizzes note_deleted)
   \<and> currentCardIndex (studying 0) < length [fresh_card ''n1'' ''S'' ''q'']
   \<and> fc_id ([fresh_card ''n1'' ''S'' ''q''] ! currentCardIndex (studying 0)) = ''n1''
   \<and> getUser note_deleted ''n1'' = None
   \<and> updateUser note_deleted ''n1'' email_only = (note_deleted, None)
   \<and> getDocument note_deleted ''n1'' = None
   \<and> deleteDocument note_deleted ''n1'' = (note_deleted, False)
   \<and> getNote note_deleted ''n1'' = None
   \<and> updateNote note_deleted ''n1'' 7 title_only = (note_deleted, None)
   \<and> deleteNote note_deleted ''n1'' = (note_deleted, False)
   \<and> getFlashcardSet note_deleted ''n1'' = None
   \<and> updateFlashcard note_deleted ''n1'' question_only = (note_deleted, None)
   \<and> put_flashcard note_deleted ''n1'' question_only
       = (note_deleted, Status404 ''Flashcard not found'')
   \<and> review note_deleted (Some [fresh_card ''n1'' ''S'' ''q'']) (studying 0) ''easy'' 7
       = (note_deleted, Some (Status404 ''Flashcard not found''))
   \<and> getQuiz note_deleted ''n1'' = None"
proof -
  have a: "absent ''n1'' (users note_deleted)" "absent ''n1'' (documents note_deleted)"
    "absent ''n1'' (notes_map note_deleted)" "absent ''n1'' (flashcardSets note_deleted)"
    "absent ''n1'' (flashcards note_deleted)" "absent ''n1'' (quizzes note_deleted)"
    by (simp_all add: note_deleted_eq absent_def new_MemStorage_def)
  have i: "currentCardIndex (studying 0) < length [fresh_card ''n1'' ''S'' ''q'']"
    "fc_id ([fresh_card ''n1'' ''S'' ''q''] ! currentCardIndex (studying 0)) = ''n1''"
    by (simp_all add: studying_def fresh_card_def)
  from absent_id_not_found [where k = "''n1''" and s = note_deleted and pu = email_only
      and now = 7 and pn = title_only and pfc = question_only and st = "studying 0"
      and cards = "[fresh_card ''n1'' ''S'' ''q'']" and difficulty = "''easy''"]
    a i note_was_deleted
  show ?thesis by simp
qed

section \<open>Partial updates\<close>

text \<open>
  C7, as the code has it. An update of a stored user, note or flashcard replaces the
  record under its key by one in which each field the partial object has carries the
  supplied value and each field it does not have carries the old value; so an update
  with one field changes that field only. For a note there is one exception:
  \<open>updatedAt\<close> is set to the instant of the update, whatever the partial object
  holds. Nothing else in the store changes.
\<close>

theorem partial_update_merge:
  "(Map_get (users s) ku = Some user \<longrightarrow>
      (\<exists>user'. updateUser s ku pu = (s\<lparr>users := Map_set (users s) ku user'\<rparr>, Some user')
         \<and> getUser (fst (updateUser s ku pu)) ku = Some user'
         \<and> u_id user' = (case pu_id pu of None \<Rightarrow> u_id user | Some v \<Rightarrow> v)
         \<and> u_username user' = (case pu_username pu of None \<Rightarrow> u_username user | Some v \<Rightarrow> v)
         \<and> u_email user' = (case pu_email pu of None \<Rightarrow> u_email user | Some v \<Rightarrow> v)
         \<and> u_password user' = (case pu_password pu of None \<Rightarrow> u_password user | Some v \<Rightarrow> v)
         \<and> u_spotifyAccessToken user' =
             (case pu_spotifyAccessToken pu of None \<Rightarrow> u_spotifyAccessToken user | Some v \<Rightarrow> v)
         \<and> u_spotifyRefreshToken user' =
             (case pu_spotifyRefreshToken pu of None \<Rightarrow> u_spotifyRefreshToken user | Some v \<Rightarrow> v)
         \<and> u_createdAt user' = (case pu_createdAt pu of None \<Rightarrow> u_createdAt user | Some v \<Rightarrow> v)))
   \<and> (Map_get (notes_map s) kn = Some n \<longrightarrow>
      (\<exists>n'. updateNote s kn now pn = (s\<lparr>notes_map := Map_set (notes_map s) kn n'\<rparr>, Some n')
         \<and> getNote (fst (updateNote s kn now pn)) kn = Some n'
         \<and> n_id n' = (case pn_id pn of None \<Rightarrow> n_id n | Some v \<Rightarrow> v)
         \<and> n_userId n' = (case pn_userId pn of None \<Rightarrow> n_userId n | Some v \<Rightarrow> v)
         \<and> n_documentId n' = (case pn_documentId pn of None \<Rightarrow> n_documentId n | Some v \<Rightarrow> v)
         \<and> n_title n' = (case pn_title pn of None \<Rightarrow> n_title n | Some v \<Rightarrow> v)
         \<and> n_content n' = (case pn_content pn of None \<Rightarrow> n_content n | Some v \<Rightarrow> v)
         \<and> n_subject n' = (case pn_subject pn of None \<Rightarrow> n_subject n | Some v \<Rightarrow> v)
         \<and> n_tags n' = (case pn_tags pn of None \<Rightarrow> n_tags n | Some v \<Rightarrow> v)
         \<and> n_wordCount n' = (case pn_wordCount pn of None \<Rightarrow> n_wordCount n | Some v \<Rightarrow> v)
         \<and> n_createdAt n' = (case pn_createdAt pn of None \<Rightarrow> n_createdAt n | Some v \<Rightarrow> v)
         \<and> n_updatedAt n' = Some now))
   \<and> (Map_get (flashcards s) kc = Some c \<longrightarrow>
      (\<exists>c'. updateFlashcard s kc pfc = (s\<lparr>flashcards := Map_set (flashcards s) kc c'\<rparr>, Some c')
         \<and> Map_get (flashcards (fst (updateFlashcard s kc pfc))) kc = Some c'
         \<and> fc_id c' = (case pfc_id pfc of None \<Rightarrow> fc_id c | Some v \<Rightarrow> v)
         \<and> fc_setId c' = (case pfc_setId pfc of None \<Rightarrow> fc_setId c | Some v \<Rightarrow> v)
         \<and> fc_question c' = (case pfc_question pfc of None \<Rightarrow> fc_question c | Some v \<Rightarrow> v)
         \<and> fc_answer c' = (case pfc_answer pfc of None \<Rightarrow> fc_answer c | Some v \<Rightarrow> v)
         \<and> fc_difficulty c' = (case pfc_difficulty pfc of None \<Rightarrow> fc_difficulty c | Some v \<Rightarrow> v)
         \<and> fc_lastReviewed c' =
             (case pfc_lastReviewed pfc of None \<Rightarrow> fc_lastReviewed c | Some v \<Rightarrow> v)
         \<and> fc_nextReview c' = (case pfc_nextReview pfc of None \<Rightarrow> fc_nextReview c | Some v \<Rightarrow> v)
         \<and> fc_repetitions c' = (case pfc_repetitions pfc of None \<Rightarrow> fc_repetitions c | Some v \<Rightarrow> v)
         \<and> fc_easinessFactor c' =
             (case pfc_easinessFactor pfc of None \<Rightarrow> fc_easinessFactor c | Some v \<Rightarrow> v)))"
proof (intro conjI impI)
  assume "Map_get (users s) ku = Some user"
  then show "\<exists>user'. updateUser s ku pu = (s\<lparr>users := Map_set (users s) ku user'\<rparr>, Some user')
         \<and> getUser (fst (updateUser s ku pu)) ku = Some user'
         \<and> u_id user' = (case pu_id pu of None \<Rightarrow> u_id user | Some v \<Rightarrow> v)
         \<and> u_username user' = (case pu_username pu of None \<Rightarrow> u_username user | Some v \<Rightarrow> v)
         \<and> u_email user' = (case pu_email pu of None \<Rightarrow> u_email user | Some v \<Rightarrow> v)
         \<and> u_password user' = (case pu_password pu of None \<Rightarrow> u_password user | Some v \<Rightarrow> v)
         \<and> u_spotifyAccessToken user' =
             (case pu_spotifyAccessToken pu of None \<Rightarrow> u_spotifyAccessToken user | Some v \<Rightarrow> v)
         \<and> u_spotifyRefreshToken user' =
             (case pu_spotifyRefreshToken pu of None \<Rightarrow> u_spotifyRefreshToken user | Some v \<Rightarrow> v)
         \<and> u_createdAt user' = (case pu_createdAt pu of None \<Rightarrow> u_createdAt user | Some v \<Rightarrow> v)"
    by (simp add: updateUser_def getUser_def Let_def Map_get_set spread_User_def spread_def)
next
  assume "Map_get (notes_map s) kn = Some n"
  then show "\<exists>n'. updateNote s kn now pn = (s\<lparr>notes_map := Map_set (notes_map s) kn n'\<rparr>, Some n')
         \<and> getNote (fst (updateNote s kn now pn)) kn = Some n'
         \<and> n_id n' = (case pn_id pn of None \<Rightarrow> n_id n | Some v \<Rightarrow> v)
         \<and> n_userId n' = (case pn_userId pn of None \<Rightarrow> n_userId n | Some v \<Rightarrow> v)
         \<and> n_documentId n' = (case pn_documentId pn of None \<Rightarrow> n_documentId n | Some v \<Rightarrow> v)
         \<and> n_title n' = (case pn_title pn of None \<Rightarrow> n_title n | Some v \<Rightarrow> v)
         \<and> n_content n' = (case pn_content pn of None \<Rightarrow> n_content n | Some v \<Rightarrow> v)
         \<and> n_subject n' = (case pn_subject pn of None \<Rightarrow> n_subject n | Some v \<Rightarrow> v)
         \<and> n_tags n' = (case pn_tags pn of None \<Rightarrow> n_tags n | Some v \<Rightarrow> v)
         \<and> n_wordCount n' = (case pn_wordCount pn of None \<Rightarrow> n_wordCount n | Some v \<Rightarrow> v)
         \<and> n_createdAt n' = (case pn_createdAt pn of None \<Rightarrow> n_createdAt n | Some v \<Rightarrow> v)
         \<and> n_updatedAt n' = Some now"
    by (simp add: updateNote_def getNote_def Let_def Map_get_set spread_Note_def spread_def)
next
  assume "Map_get (flashcards s) kc = Some c"
  then show "\<exists>c'. updateFlashcard s kc pfc = (s\<lparr>flashcards := Map_set (flashcards s) kc c'\<rparr>, Some c')
         \<and> Map_get (flashcards (fst (updateFlashcard s kc pfc))) kc = Some c'
         \<and> fc_id c' = (case pfc_id pfc of None \<Rightarrow> fc_id c | Some v \<Rightarrow> v)
         \<and> fc_setId c' = (case pfc_setId pfc of None \<Rightarrow> fc_setId c | Some v \<Rightarrow> v)
         \<and> fc_question c' = (case pfc_question pfc of None \<Rightarrow> fc_question c | Some v \<Rightarrow> v)
         \<and> fc_answer c' = (case pfc_answer pfc of None \<Rightarrow> fc_answer c | Some v \<Rightarrow> v)
         \<and> fc_difficulty c' = (case pfc_difficulty pfc of None \<Rightarrow> fc_difficulty c | Some v \<Rightarrow> v)
         \<and> fc_lastReviewed c' =
             (case pfc_lastReviewed pfc of None \<Rightarrow> fc_lastReviewed c | Some v \<Rightarrow> v)
         \<and> fc_nextReview c' = (case pfc_nextReview pfc of None \<Rightarrow> fc_nextReview c | Some v \<Rightarrow> v)
         \<and> fc_repetitions c' = (case pfc_repetitions pfc of None \<Rightarrow> fc_repetitions c | Some v \<Rightarrow> v)
         \<and> fc_easinessFactor c' =
             (case pfc_easinessFactor pfc of None \<Rightarrow> fc_easinessFactor c | Some v \<Rightarrow> v)"
    by (simp add: updateFlashcard_def Let_def Map_get_set spread_Flashcard_def spread_def)
qed

text \<open>Updates with one field, of a user, a note and a flashcard.\<close>

theorem partial_update_merge_witness:
  "Map_get (users mixed_store) ''u1'' = Some first_user
   \<and> Map_get (notes_map mixed_store) ''n1'' = Some first_note
   \<and> Map_get (flashcards mixed_store) ''c1'' = Some (fresh_card ''c1'' ''S'' ''q1'')
   \<and> getUser (fst (updateUser mixed_store ''u1'' email_only)) ''u1''
       = Some (first_user\<lparr>u_email := ''new@example.org''\<rparr>)
   \<and> getNote (fst (updateNote mixed_store ''n1'' 2000 title_only)) ''n1''
       = Some (first_note\<lparr>n_title := ''new'', n_updatedAt := Some 2000\<rparr>)
   \<and> Map_get (flashcards (fst (updateFlashcard mixed_store ''c1'' question_only))) ''c1''
       = Some ((fresh_card ''c1'' ''S'' ''q1'')\<lparr>fc_question := ''new''\<rparr>)"
proof -
  have g: "Map_get (users mixed_store) ''u1'' = Some first_user"
    "Map_get (notes_map mixed_store) ''n1'' = Some first_note"
    "Map_get (flashcards mixed_store) ''c1'' = Some (fresh_card ''c1'' ''S'' ''q1'')"
    by (simp_all add: mixed_store_eq Map_get_def new_MemStorage_def)
  from partial_update_merge [where s = mixed_store and ku = "''u1''" and user = first_user
      and pu = email_only and kn = "''n1''" and n = first_note and now = 2000
      and pn = title_only and kc = "''c1''" and c = "fresh_card ''c1'' ''S'' ''q1''"
      and pfc = question_only] g
  show ?thesis
    by (auto simp: email_only_def title_only_def question_only_def empty_Partial_User_def
        empty_Partial_Note_def empty_Partial_Flashcard_def first_user_def first_note_def
        fresh_card_def)
qed

text \<open>
  C7 as stated fails for notes: an update that contains \<open>title\<close> only also changes
  \<open>updatedAt\<close>, here from 1000 to 2000.
\<close>

theorem note_update_counterexample:
  "getNote one_note ''n1'' = Some first_note
   \<and> getNote (fst (updateNote one_note ''n1'' 2000 (empty_Partial_Note\<lparr>pn_title := Some ''new''\<rparr>))) ''n1''
       = Some (first_note\<lparr>n_title := ''new'', n_updatedAt := Some 2000\<rparr>)
   \<and> n_updatedAt (first_note\<lparr>n_title := ''new'', n_updatedAt := Some 2000\<rparr>) \<noteq> n_updatedAt first_note"
  by (simp add: one_note_eq getNote_def updateNote_def Map_get_def new_MemStorage_def Let_def
      spread_Note_def spread_def empty_Partial_Note_def first_note_def)

section \<open>The id of a record\<close>

text \<open>
  C8, as the code has it. The id of a record is the one generated at its creation, and
  an update whose partial object has no \<open>id\<close> leaves it as it is, as does every
  review; the record stays under its key.
\<close>

theorem id_kept_without_id_key:
  "u_id (snd (createUser s uuid now insertUser)) = uuid
   \<and> d_id (snd (createDocument s uuid now insertDocument)) = uuid
   \<and> n_id (snd (createNote s uuid now insertNote)) = uuid
   \<and> fs_id (snd (createFlashcardSet s uuid now insertSet)) = uuid
   \<and> fc_id (snd (createFlashcard s uuid insertCard)) = uuid
   \<and> q_id (snd (createQuiz s uuid now insertQuiz)) = uuid
   \<and> qa_id (snd (createQuizAttempt s uuid now insertAttempt)) = uuid
   \<and> cm_id (snd (createChatMessage s uuid now insertMessage)) = uuid
   \<and> (pu_id pu = None \<and> Map_get (users s) ku = Some user \<longrightarrow>
        (\<exists>user'. snd (updateUser s ku pu) = Some user'
           \<and> getUser (fst (updateUser s ku pu)) ku = Some user'
           \<and> u_id user' = u_id user))
   \<and> (pn_id pn = None \<and> Map_get (notes_map s) kn = Some n \<longrightarrow>
        (\<exists>n'. snd (updateNote s kn now pn) = Some n'
           \<and> getNote (fst (updateNote s kn now pn)) kn = Some n'
           \<and> n_id n' = n_id n))
   \<and> (pfc_id pfc = None \<and> Map_get (flashcards s) kc = Some c \<longrightarrow>
        (\<exists>c'. snd (updateFlashcard s kc pfc) = Some c'
           \<and> Map_get (flashcards (fst (updateFlashcard s kc pfc))) kc = Some c'
           \<and> fc_id c' = fc_id c))
   \<and> (currentCardIndex st < length cards
        \<and> Map_get (flashcards s) (fc_id (cards ! currentCardIndex st)) = Some stored \<longrightarrow>
        (\<exists>c'. snd (review s (Some cards) st difficulty now) = Some (Json c')
           \<and> Map_get (flashcards (fst (review s (Some cards) st difficulty now)))
                (fc_id (cards ! currentCardIndex st)) = Some c'
           \<and> fc_id c' = fc_id stored))"
proof (intro conjI impI)
  show "u_id (snd (createUser s uuid now insertUser)) = uuid"
    by (simp add: createUser_def Let_def)
  show "d_id (snd (createDocument s uuid now insertDocument)) = uuid"
    by (simp add: createDocument_def Let_def)
  show "n_id (snd (createNote s uuid now insertNote)) = uuid"
    by (simp add: createNote_def Let_def)
  show "fs_id (snd (createFlashcardSet s uuid now insertSet)) = uuid"
    by (simp add: createFlashcardSet_def Let_def)
  show "fc_id (snd (createFlashcard s uuid insertCard)) = uuid"
    by (simp add: createFlashcard_def Let_def)
  show "q_id (snd (createQuiz s uuid now insertQuiz)) = uuid"
    by (simp add: createQuiz_def Let_def)
  show "qa_id (snd (createQuizAttempt s uuid now insertAttempt)) = uuid"
    by (simp add: createQuizAttempt_def Let_def)
  show "cm_id (snd (createChatMessage s uuid now insertMessage)) = uuid"
    by (simp add: createChatMessage_def Let_def)
next
  assume "pu_id pu = None \<and> Map_get (users s) ku = Some user"
  then show "\<exists>user'. snd (updateUser s ku pu) = Some user'
           \<and> getUser (fst (updateUser s ku pu)) ku = Some user'
           \<and> u_id user' = u_id user"
    by (simp add: updateUser_def getUser_def Let_def Map_get_set spread_User_def spread_def)
next
  assume "pn_id pn = None \<and> Map_get (notes_map s) kn = Some n"
  then show "\<exists>n'. snd (updateNote s kn now pn) = Some n'
           \<and> getNote (fst (updateNote s kn now pn)) kn = Some n'
           \<and> n_id n' = n_id n"
    by (simp add: updateNote_def getNote_def Let_def Map_get_set spread_Note_def spread_def)
next
  assume "pfc_id pfc = None \<and> Map_get (flashcards s) kc = Some c"
  then show "\<exists>c'. snd (updateFlashcard s kc pfc) = Some c'
           \<and> Map_get (flashcards (fst (updateFlashcard s kc pfc))) kc = Some c'
           \<and> fc_id c' = fc_id c"
    by (simp add: updateFlashcard_def Let_def Map_get_set spread_Flashcard_def spread_def)
next
  assume a: "currentCardIndex st < length cards
        \<and> Map_get (flashcards s) (fc_id (cards ! currentCardIndex st)) = Some stored"
  then have i: "currentCardIndex st < length cards"
    and g: "Map_get (flashcards s) (fc_id (cards ! currentCardIndex st)) = Some stored"
    by simp_all
  show "\<exists>c'. snd (review s (Some cards) st difficulty now) = Some (Json c')
           \<and> Map_get (flashcards (fst (review s (Some cards) st difficulty now)))
                (fc_id (cards ! currentCardIndex st)) = Some c'
           \<and> fc_id c' = fc_id stored"
    by (simp add: review_present [OF i g] Map_get_set)
qed

text \<open>Updates without an \<open>id\<close> and a review, in a store with a user, a note and four cards.\<close>

theorem id_kept_without_id_key_witness:
  "pu_id email_only = None \<and> Map_get (users mixed_store) ''u1'' = Some first_user
   \<and> pn_id title_only = None \<and> Map_get (notes_map mixed_store) ''n1'' = Some first_note
   \<and> pfc_id question_only = None
   \<and> Map_get (flashcards mixed_store) ''c1'' = Some (fresh_card ''c1'' ''S'' ''q1'')
   \<and> currentCardIndex (studying 0) < length [fresh_card ''c1'' ''S'' ''q1'']
   \<and> Map_get (flashcards mixed_store)
        (fc_id ([fresh_card ''c1'' ''S'' ''q1''] ! currentCardIndex (studying 0)))
       = Some (fresh_card ''c1'' ''S'' ''q1'')
   \<and> (\<exists>user'. snd (updateUser mixed_store ''u1'' email_only) = Some user'
         \<and> getUser (fst (updateUser mixed_store ''u1'' email_only)) ''u1'' = Some user'
         \<and> u_id user' = ''u1'')
   \<and> (\<exists>n'. snd (updateNote mixed_store ''n1'' 2000 title_only) = Some n'
         \<and> getNote (fst (updateNote mixed_store ''n1'' 2000 title_only)) ''n1'' = Some n'
         \<and> n_id n' = ''n1'')
   \<and> (\<exists>c'. snd (updateFlashcard mixed_store ''c1'' question_only) = Some c'
         \<and> Map_get (flashcards (fst (updateFlashcard mixed_store ''c1'' question_only))) ''c1''
              = Some c'
         \<and> fc_id c' = ''c1'')
   \<and> (\<exists>c'. snd (review mixed_store (Some [fresh_card ''c1'' ''S'' ''q1'']) (studying 0)
                    ''easy'' 2000) = Some (Json c')
         \<and> Map_get (flashcards (fst (review mixed_store (Some [fresh_card ''c1'' ''S'' ''q1''])
                                         (studying 0) ''easy'' 2000))) ''c1'' = Some c'
         \<and> fc_id c' = ''c1'')"
proof -
  have g: "Map_get (users mixed_store) ''u1'' = Some first_user"
    "Map_get (notes_map mixed_store) ''n1'' = Some first_note"
    "Map_get (flashcards mixed_store) ''c1'' = Some (fresh_card ''c1'' ''S'' ''q1'')"
    by (simp_all add: mixed_store_eq Map_get_def new_MemStorage_def)
  have p: "pu_id email_only = None" "pn_id title_only = None" "pfc_id question_only = None"
    by (simp_all add: email_only_def title_only_def question_only_def empty_Partial_User_def
        empty_Partial_Note_def empty_Partial_Flashcard_def)
  have i: "currentCardIndex (studying 0) < length [fresh_card ''c1'' ''S'' ''q1'']"
    "fc_id ([fresh_card ''c1'' ''S'' ''q1''] ! currentCardIndex (studying 0)) = ''c1''"
    "fc_id (fresh_card ''c1'' ''S'' ''q1'') = ''c1''" "u_id first_user = ''u1''"
    "n_id first_note = ''n1''"
    by (simp_all add: studying_def fresh_card_def first_user_def first_note_def)
  from id_kept_without_id_key [where s = mixed_store and ku = "''u1''" and user = first_user
      and pu = email_only and kn = "''n1''" and n = first_note and now = 2000
      and pn = title_only and kc = "''c1''" and c = "fresh_card ''c1'' ''S'' ''q1''"
      and pfc = question_only and st = "studying 0"
      and cards = "[fresh_card ''c1'' ''S'' ''q1'']" and stored = "fresh_card ''c1'' ''S'' ''q1''"
      and difficulty = "''easy''"] g p i
  show ?thesis
    by simp
qed

text \<open>
  C8 as stated fails for a partial object that has an \<open>id\<close>: the spread writes it
  over the id of the stored record, which stays under its old key.
\<close>

theorem id_overwritten_counterexample:
  "Map_get (flashcards four_cards) ''c1'' = Some (fresh_card ''c1'' ''S'' ''q1'')
   \<and> Map_get (flashcards (fst (updateFlashcard four_cards ''c1''
                  (empty_Partial_Flashcard\<lparr>pfc_id := Some ''other''\<rparr>)))) ''c1''
       = Some ((fresh_card ''c1'' ''S'' ''q1'')\<lparr>fc_id := ''other''\<rparr>)
   \<and> fc_id ((fresh_card ''c1'' ''S'' ''q1'')\<lparr>fc_id := ''other''\<rparr>)
       \<noteq> fc_id (fresh_card ''c1'' ''S'' ''q1'')"
  by (simp add: four_cards_eq updateFlashcard_def Map_get_def new_MemStorage_def Let_def
      spread_Flashcard_def spread_def empty_Partial_Flashcard_def fresh_card_def)

section \<open>Listing by a foreign key\<close>

lemma filter_values_iff:
  assumes "keys_distinct m"
  shows "set (filter P (Map_values m)) = {v. (\<exists>k. Map_get m k = Some v) \<and> P v}"
  using Map_values_iff [of m] assms by (auto simp: keys_distinct_def)

lemma filter_values_length:
  assumes "keys_distinct m"
  shows "length (filter P (Map_values m)) = card {k. \<exists>v. Map_get m k = Some v \<and> P v}"
  using assms
proof (induction m)
  case Nil
  then show ?case by (simp add: Map_values_def Map_get_def)
next
  case (Cons p m)
  obtain k v where p: "p = (k, v)" by (cases p)
  from Cons.prems p have k: "k \<notin> fst ` set m" and d: "keys_distinct m"
    by (simp_all add: keys_distinct_def)
  let ?A = "{k'. \<exists>v'. Map_get m k' = Some v' \<and> P v'}"
  have fin: "finite ?A"
    by (rule finite_subset [of _ "fst ` set m"])
      (auto simp: Map_get_def dest!: map_of_SomeD intro: rev_image_eqI)
  from k have notin: "k \<notin> ?A"
    by (auto simp: Map_get_def dest!: map_of_SomeD intro: rev_image_eqI)
  have "{k'. \<exists>v'. Map_get (p # m) k' = Some v' \<and> P v'} = (if P v then insert k ?A else ?A)"
    using notin by (auto simp: p Map_get_def)
  with fin notin Cons.IH [OF d] show ?case
    by (simp add: p Map_values_def)
qed

text \<open>
  The empty store has one entry for each key, and every method keeps it so.
\<close>

lemma keys_distinct_delete: "keys_distinct m \<Longrightarrow> keys_distinct (fst (Map_delete m k))"
  by (simp add: keys_distinct_def Map_delete_def distinct_map_filter)

lemma one_entry_new: "one_entry_per_key new_MemStorage"
  by (simp add: one_entry_per_key_def keys_distinct_def new_MemStorage_def)

lemma one_entry_create:
  assumes "one_entry_per_key s"
  shows "one_entry_per_key (fst (createUser s uuid now insertUser))"
    and "one_entry_per_key (fst (createDocument s uuid now insertDocument))"
    and "one_entry_per_key (fst (createNote s uuid now insertNote))"
    and "one_entry_per_key (fst (createFlashcardSet s uuid now insertSet))"
    and "one_entry_per_key (fst (createFlashcard s uuid insertCard))"
    and "one_entry_per_key (fst (createQuiz s uuid now insertQuiz))"
    and "one_entry_per_key (fst (createQuizAttempt s uuid now insertAttempt))"
    and "one_entry_per_key (fst (createChatMessage s uuid now insertMessage))"
  using assms
  by (simp_all add: one_entry_per_key_def keys_distinct_set Let_def createUser_def
      createDocument_def createNote_def createFlashcardSet_def createFlashcard_def
      createQuiz_def createQuizAttempt_def createChatMessage_def)

lemma one_entry_update:
  assumes "one_entry_per_key s"
  shows "one_entry_per_key (fst (updateUser s k pu))"
    and "one_entry_per_key (fst (updateNote s k now pn))"
    and "one_entry_per_key (fst (updateFlashcard s k pfc))"
    and "one_entry_per_key (fst (review s cc st difficulty now))"
  using assms
  by (simp_all add: one_entry_per_key_def keys_distinct_set Let_def updateUser_def
      updateNote_def updateFlashcard_def review_def put_flashcard_def
      split: option.split prod.split)

lemma one_entry_delete:
  assumes "one_entry_per_key s"
  shows "one_entry_per_key (fst (deleteDocument s k))"
    and "one_entry_per_key (fst (deleteNote s k))"
  using assms
  by (simp_all add: one_entry_per_key_def keys_distinct_delete deleteDocument_def
      deleteNote_def split_beta)

text \<open>
  C9. Each listing returns exactly the records of its type in the store whose
  foreign key is the value asked for: a record is in the list if and only if the store
  holds it under some id and its field has that value. For flashcards the list has one
  element for each id under which such a card is stored.
\<close>

theorem listBy_exact:
  assumes "one_entry_per_key s"
  shows "set (getDocumentsByUser s v) = {d. (\<exists>k. getDocument s k = Some d) \<and> d_userId d = v}
    \<and> set (getNotesByUser s v) = {n. (\<exists>k. getNote s k = Some n) \<and> n_userId n = v}
    \<and> set (getNotesByDocument s v) = {n. (\<exists>k. getNote s k = Some n) \<and> n_documentId n = Some v}
    \<and> set (getFlashcardSetsByUser s v) =
        {fs. (\<exists>k. getFlashcardSet s k = Some fs) \<and> fs_userId fs = v}
    \<and> set (getFlashcardsBySet s v) =
        {c. (\<exists>k. Map_get (flashcards s) k = Some c) \<and> fc_setId c = v}
    \<and> length (getFlashcardsBySet s v) =
        card {k. \<exists>c. Map_get (flashcards s) k = Some c \<and> fc_setId c = v}
    \<and> set (getQuizzesByUser s v) = {q. (\<exists>k. getQuiz s k = Some q) \<and> q_userId q = v}
    \<and> set (getQuizAttemptsByUser s v) =
        {a. (\<exists>k. Map_get (quizAttempts s) k = Some a) \<and> qa_userId a = v}
    \<and> set (getChatMessagesByDocument s v) =
        {m. (\<exists>k. Map_get (chatMessages s) k = Some m) \<and> cm_documentId m = Some v}"
proof -
  from assms have k: "keys_distinct (documents s)" "keys_distinct (notes_map s)"
    "keys_distinct (flashcardSets s)" "keys_distinct (flashcards s)"
    "keys_distinct (quizzes s)" "keys_distinct (quizAttempts s)"
    "keys_distinct (chatMessages s)"
    by (simp_all add: one_entry_per_key_def)
  show ?thesis
    unfolding getDocumentsByUser_def getNotesByUser_def getNotesByDocument_def
      getFlashcardSetsByUser_def getFlashcardsBySet_def getQuizzesByUser_def
      getQuizAttemptsByUser_def getChatMessagesByDocument_def getDocument_def getNote_def
      getFlashcardSet_def getQuiz_def
    by (intro conjI filter_values_iff filter_values_length k)
qed

text \<open>
  Three cards created with set id S and one with another: the listing for S is those
  three.
\<close>

lemma one_entry_four_cards: "one_entry_per_key four_cards"
  by (simp add: four_cards_eq one_entry_per_key_def keys_distinct_def new_MemStorage_def)

theorem listBy_exact_witness:
  "one_entry_per_key four_cards
   \<and> getFlashcardsBySet four_cards ''S'' =
       [fresh_card ''c1'' ''S'' ''q1'', fresh_card ''c3'' ''S'' ''q3'', fresh_card ''c4'' ''S'' ''q4'']
   \<and> {c. (\<exists>k. Map_get (flashcards four_cards) k = Some c) \<and> fc_setId c = ''S''} =
       {fresh_card ''c1'' ''S'' ''q1'', fresh_card ''c3'' ''S'' ''q3'', fresh_card ''c4'' ''S'' ''q4''}
   \<and> card {k. \<exists>c. Map_get (flashcards four_cards) k = Some c \<and> fc_setId c = ''S''} = 3"
  using listBy_exact [OF one_entry_four_cards, of "''S''"] one_entry_four_cards
  by (simp add: four_cards_S)


end
